theory Spec2Isabelle
  imports Main
begin

section \<open>Python values and strings\<close>

text \<open>
  A Python \<open>str\<close> is a sequence of Unicode code points, so it is modelled as a list of
  natural numbers. String literals of the source that are plain ASCII are written with
  \<open>lit\<close>; the Chinese literals are given by their code points.
\<close>

type_synonym pystr = "nat list"

definition lit :: "string \<Rightarrow> pystr" where
  "lit s = map of_char s"

text \<open>
  The values a decoded JSON document (and hence an attribute loaded from it) can hold.
  A float is kept as its textual form only.
\<close>

datatype pyval =
    PNone
  | PBool bool
  | PInt int
  | PFloat pystr
  | PStr pystr
  | PList "pyval list"
  | PDict "(pystr \<times> pyval) list"

text \<open>\<open>str.isspace\<close> on one code point: the Unicode whitespace of CPython.\<close>

definition isspace :: "nat \<Rightarrow> bool" where
  "isspace c \<longleftrightarrow>
     (0x9 \<le> c \<and> c \<le> 0xD) \<or> (0x1C \<le> c \<and> c \<le> 0x20) \<or> c = 0x85 \<or> c = 0xA0 \<or>
     c = 0x1680 \<or> (0x2000 \<le> c \<and> c \<le> 0x200A) \<or> c = 0x2028 \<or> c = 0x2029 \<or>
     c = 0x202F \<or> c = 0x205F \<or> c = 0x3000"

text \<open>\<open>text.strip()\<close>: whitespace removed at both ends.\<close>

definition strip :: "pystr \<Rightarrow> pystr" where
  "strip s = rev (dropWhile isspace (rev (dropWhile isspace s)))"

text \<open>\<open>text.replace(old, new)\<close> for one-character \<open>old\<close> and \<open>new\<close>.\<close>

definition replace_char :: "nat \<Rightarrow> nat \<Rightarrow> pystr \<Rightarrow> pystr" where
  "replace_char old new text = map (\<lambda>c. if c = old then new else c) text"

section \<open>Naming formats and \<open>generate_filename\<close>\<close>

text \<open>The two naming formats: U+6B4C U+66F2 U+540D, and the same followed by
  \<open>-\<close> U+6B4C U+624B.\<close>

definition fmt_title_only :: pystr where
  "fmt_title_only = [0x6B4C, 0x66F2, 0x540D]"

definition fmt_title_dash_artist :: pystr where
  "fmt_title_dash_artist = [0x6B4C, 0x66F2, 0x540D, 0x2D, 0x6B4C, 0x624B]"

text \<open>
  \<open>illegal_chars = r'<>:"/\\|?*'\<close>: a raw string, so the backslash occurs twice in it.
\<close>

definition illegal_chars :: pystr where
  "illegal_chars = [0x3C, 0x3E, 0x3A, 0x22, 0x2F, 0x5C, 0x5C, 0x7C, 0x3F, 0x2A]"

definition underscore :: nat where
  "underscore = 0x5F"

text \<open>The nested \<open>clean_filename\<close>: the loop over \<open>illegal_chars\<close> is a fold.\<close>

definition clean_filename :: "pystr \<Rightarrow> pystr" where
  "clean_filename text =
     strip (fold (\<lambda>char t. replace_char char underscore t) illegal_chars text)"

definition generate_filename :: "pyval \<Rightarrow> pystr \<Rightarrow> pystr \<Rightarrow> pystr" where
  "generate_filename naming_format song_name artist =
     (let clean_song_name = clean_filename song_name;
          clean_artist = clean_filename artist
      in if naming_format = PStr fmt_title_only
         then clean_song_name @ lit ''.mp3''
         else clean_song_name @ lit '' - '' @ clean_artist @ lit ''.mp3'')"

text \<open>The nine characters the spec lists as forbidden in a file name.\<close>

definition forbidden :: "nat set" where
  "forbidden = {0x3C, 0x3E, 0x3A, 0x22, 0x2F, 0x5C, 0x7C, 0x3F, 0x2A}"

section \<open>Integers as text\<close>

text \<open>\<open>str(n)\<close> for a Python \<open>int\<close>: decimal digits, with a minus sign when negative.\<close>

fun str_nat :: "nat \<Rightarrow> pystr" where
  "str_nat n = (if n < 10 then [0x30 + n] else str_nat (n div 10) @ [0x30 + n mod 10])"

declare str_nat.simps [simp del]

definition str_int :: "int \<Rightarrow> pystr" where
  "str_int i = (if i < 0 then 0x2D # str_nat (nat (- i)) else str_nat (nat i))"

text \<open>
  A small reader of decimal integers (optional sign, ASCII digits). The operations below
  take the parser \<open>int(...)\<close> as a parameter, \<open>None\<close> standing for \<open>ValueError\<close>; this
  reader is one instance, used to run them on concrete inputs.
\<close>

fun digits_value :: "nat \<Rightarrow> pystr \<Rightarrow> nat option" where
  "digits_value acc [] = Some acc"
| "digits_value acc (c # cs) =
     (if 0x30 \<le> c \<and> c \<le> 0x39 then digits_value (10 * acc + (c - 0x30)) cs else None)"

definition ascii_int :: "pystr \<Rightarrow> int option" where
  "ascii_int s =
     (case strip s of
        [] \<Rightarrow> None
      | c # cs \<Rightarrow>
          if c = 0x2D then (if cs = [] then None else map_option (\<lambda>n. - int n) (digits_value 0 cs))
          else if c = 0x2B then (if cs = [] then None else map_option int (digits_value 0 cs))
          else map_option int (digits_value 0 (c # cs)))"

section \<open>Search results\<close>

text \<open>
  One entry of \<open>result.songs\<close> in the search response, with the keys that reach
  \<open>song_details\<close> and the downloads: \<open>id\<close>, \<open>name\<close> and the \<open>name\<close> of each artist
  (\<open>None\<close> for a missing key). Album, duration and publish time only feed the detail
  panel and are left out.
\<close>

record raw_song =
  rs_id :: "int option"
  rs_name :: "pystr option"
  rs_artists :: "pystr option list"

record song_info =
  song_id :: int
  name :: pystr
  artist_str :: pystr
  download_link :: pystr

definition unknown_song :: pystr where
  "unknown_song = [0x672A, 0x77E5, 0x6B4C, 0x66F2]"

definition unknown_artist :: pystr where
  "unknown_artist = [0x672A, 0x77E5, 0x6B4C, 0x624B]"

fun py_join :: "pystr \<Rightarrow> pystr list \<Rightarrow> pystr" where
  "py_join sep [] = []"
| "py_join sep [x] = x"
| "py_join sep (x # y # ys) = x @ sep @ py_join sep (y # ys)"

definition media_link :: "int \<Rightarrow> pystr" where
  "media_link sid = lit ''http://music.163.com/song/media/outer/url?id='' @ str_int sid @ lit ''.mp3''"

definition extract_song_info :: "raw_song \<Rightarrow> song_info" where
  "extract_song_info song =
     (let sid = (case rs_id song of None \<Rightarrow> 0 | Some i \<Rightarrow> i);
          artist_names = map (\<lambda>a. case a of None \<Rightarrow> unknown_artist | Some n \<Rightarrow> n) (rs_artists song)
      in \<lparr> song_id = sid,
           name = (case rs_name song of None \<Rightarrow> unknown_song | Some n \<Rightarrow> n),
           artist_str = (if artist_names \<noteq> [] then py_join (lit ''/'') artist_names else unknown_artist),
           download_link = media_link sid \<rparr>)"

text \<open>
  The decoded search response in the shape the API documents: the list \<open>result.songs\<close>
  and the optional \<open>result.songCount\<close>.
\<close>

record page =
  songs :: "raw_song list"
  songCount :: "int option"

text \<open>
  What \<open>search_music\<close> gets from the network: an exception (request, status or JSON
  decoding) with its text, a document that is falsy (\<open>{}\<close>), or a page.
\<close>

datatype reply = Raised pystr | Falsy | Data page

section \<open>The application state\<close>

text \<open>
  Effects that leave the program, in the order they happen: a search request
  (keywords, offset and limit as sent), a GET or HEAD of a media link, a message box
  (title, body) and a text written to the status bar by \<open>status_label.config\<close>. What
  \<open>self.log\<close> writes, its echo on the status bar included, is not recorded.
\<close>

datatype event =
    Search pystr pystr pystr
  | Http_get pystr
  | Http_head pystr
  | Show_warning pystr pystr
  | Show_info pystr pystr
  | Show_error pystr pystr
  | Set_status pystr

text \<open>A path of the file system holds a directory or a file with its bytes.\<close>

datatype node = Dir | File "nat list"

text \<open>
  The attributes of \<open>NeteaseSearchDownload\<close> and the widgets the operations read or
  write. A button is \<open>True\<close> when its state is \<open>normal\<close>, \<open>False\<close> when \<open>disabled\<close>.
  \<open>download_log_text\<close> is the content of the download-record text box, as the list of
  the pieces inserted at its end (the text shown is their concatenation);
  \<open>detail_download_status\<close> is the text of the status label of the detail panel. \<open>events\<close> is the
  trace of outside effects, \<open>clock\<close> counts the interactions with the outside (each
  answer of the network and each reading of the time is indexed by it), and \<open>fs\<close> lists
  the paths that exist. The operation log written by \<open>self.log\<close>, the tree view and the
  detail labels are display only and are not modelled.
\<close>

record app =
  current_keywords :: pystr
  current_offset :: int
  current_limit :: int
  current_result :: "page option"
  song_details :: "song_info list"
  selected_song :: "song_info option"
  naming_format :: pyval
  download_dir :: pyval
  keyword_var :: pystr
  offset_var :: pystr
  limit_var :: pystr
  goto_var :: pystr
  prev_btn :: bool
  next_btn :: bool
  download_btn :: bool
  batch_download_btn :: bool
  test_download_btn :: bool
  page_label :: pystr
  detail_download_status :: pystr
  download_log_text :: "pystr list"
  events :: "event list"
  clock :: nat
  fs :: "(pystr \<times> node) list"

definition page_label_offset :: pystr where
  "page_label_offset = [0x504F, 0x79FB, 0x91CF, 0x3A, 0x20]"

definition page_label_total :: pystr where
  "page_label_total = [0x20, 0x7C, 0x20, 0x603B, 0x6570, 0x3A, 0x20]"

definition page_label_text :: "int \<Rightarrow> int \<Rightarrow> pystr" where
  "page_label_text off cnt = page_label_offset @ str_int off @ page_label_total @ str_int cnt"

text \<open>
  The state the constructor builds apart from \<open>load_settings\<close>: the defaults of the
  attributes and the initial values of the widgets.
\<close>

definition init_app :: app where
  "init_app = \<lparr>
     current_keywords = [], current_offset = 0, current_limit = 20,
     current_result = None, song_details = [], selected_song = None,
     naming_format = PStr fmt_title_dash_artist, download_dir = PStr (lit ''downloads''),
     keyword_var = [], offset_var = lit ''0'', limit_var = lit ''20'', goto_var = [],
     prev_btn = False, next_btn = False, download_btn = False,
     batch_download_btn = False, test_download_btn = False,
     page_label = page_label_text 0 0, detail_download_status = [],
     download_log_text = [],
     events = [], clock = 0, fs = [] \<rparr>"

section \<open>Searching and paging\<close>

definition input_error_title :: pystr where
  "input_error_title = [0x8F93, 0x5165, 0x9519, 0x8BEF]"

definition enter_keyword_body :: pystr where
  "enter_keyword_body = [0x8BF7, 0x8F93, 0x5165, 0x641C, 0x7D22, 0x5173, 0x952E, 0x8BCD]"

definition enter_number_body :: pystr where
  "enter_number_body = [0x8BF7, 0x8F93, 0x5165, 0x6709, 0x6548, 0x7684, 0x6570, 0x5B57]"

definition enter_offset_body :: pystr where
  "enter_offset_body =
     [0x8BF7, 0x8F93, 0x5165, 0x6709, 0x6548, 0x7684, 0x6570, 0x5B57, 0x504F, 0x79FB, 0x91CF]"

definition search_failed_title :: pystr where
  "search_failed_title = [0x641C, 0x7D22, 0x5931, 0x8D25]"

definition search_failed_body :: pystr where
  "search_failed_body =
     [0x641C, 0x7D22, 0x8FC7, 0x7A0B, 0x4E2D, 0x53D1, 0x751F, 0x9519, 0x8BEF, 0x3A, 0xA]"

definition no_result_title :: pystr where
  "no_result_title = [0x65E0, 0x7ED3, 0x679C]"

definition no_result_body :: pystr where
  "no_result_body = [0x672A, 0x627E, 0x5230, 0x76F8, 0x5173, 0x6B4C, 0x66F2]"

definition ready_status :: pystr where
  "ready_status = [0x5C31, 0x7EEA]"

text \<open>\<open>update_song_detail(index)\<close>: out of range it returns at once.\<close>

definition update_song_detail :: "nat \<Rightarrow> app \<Rightarrow> app" where
  "update_song_detail index st =
     (if index \<ge> length (song_details st) then st
      else st\<lparr> detail_download_status := [],
               selected_song := Some (song_details st ! index),
               download_btn := True, test_download_btn := True \<rparr>)"

text \<open>
  \<open>display_results(data)\<close> for a truthy \<open>data\<close>. With no songs it tells the user, disables
  the three download buttons and returns before the paging widgets are touched.
\<close>

definition display_results :: "page \<Rightarrow> app \<Rightarrow> app" where
  "display_results data st =
     (let st1 = st\<lparr> song_details := [] \<rparr> in
      if songs data = [] then
        st1\<lparr> events := events st1 @ [Show_info no_result_title no_result_body],
             download_btn := False, batch_download_btn := False, test_download_btn := False \<rparr>
      else
        let st2 = st1\<lparr> song_details := map extract_song_info (songs data) \<rparr>;
            song_count = (case songCount data of None \<Rightarrow> int (length (songs data)) | Some c \<Rightarrow> c);
            st3 = st2\<lparr> page_label := page_label_text (current_offset st2) song_count,
                       prev_btn := (current_offset st2 > 0),
                       next_btn := (int (length (songs data)) \<ge> current_limit st2),
                       batch_download_btn := True,
                       current_result := Some data \<rparr>
        in update_song_detail 0 st3)"

text \<open>
  \<open>_do_search(keywords, offset, limit)\<close> with \<open>search_music\<close> inlined: the request goes
  out, and the answer \<open>api\<close> gives at this moment decides what follows. An exception is
  shown in an error box and nothing is displayed; a falsy document displays nothing;
  a page is handed to \<open>display_results\<close>.
\<close>

type_synonym api = "nat \<Rightarrow> pystr \<Rightarrow> pystr \<Rightarrow> pystr \<Rightarrow> reply"

definition do_search :: "api \<Rightarrow> pystr \<Rightarrow> pystr \<Rightarrow> pystr \<Rightarrow> app \<Rightarrow> app" where
  "do_search api keywords offset limit st =
     (let st1 = st\<lparr> events := events st @ [Search keywords offset limit],
                     clock := Suc (clock st) \<rparr>
      in case api (clock st) keywords offset limit of
           Raised e \<Rightarrow>
             st1\<lparr> events := events st1 @ [Show_error search_failed_title (search_failed_body @ e)] \<rparr>
         | Falsy \<Rightarrow> st1
         | Data data \<Rightarrow> display_results data st1)"

text \<open>\<open>s or d\<close> on strings.\<close>

definition or_default :: "pystr \<Rightarrow> pystr \<Rightarrow> pystr" where
  "or_default s d = (if s = [] then d else s)"

text \<open>
  \<open>on_search\<close>: \<open>py_int\<close> is Python's \<open>int(...)\<close> on a string. Both conversions happen
  before any attribute is written, so a \<open>ValueError\<close> leaves the state as it was.
\<close>

definition on_search :: "(pystr \<Rightarrow> int option) \<Rightarrow> api \<Rightarrow> app \<Rightarrow> app" where
  "on_search py_int api st =
     (let keywords = strip (keyword_var st) in
      if keywords = [] then
        st\<lparr> events := events st @ [Show_warning input_error_title enter_keyword_body] \<rparr>
      else
        let offset = or_default (strip (offset_var st)) (lit ''0'');
            limit = or_default (strip (limit_var st)) (lit ''20'')
        in case (py_int offset, py_int limit) of
             (Some offset_int, Some limit_int) \<Rightarrow>
               do_search api keywords offset limit
                 (st\<lparr> current_keywords := keywords, current_offset := offset_int,
                      current_limit := limit_int \<rparr>)
           | _ \<Rightarrow> st\<lparr> events := events st @ [Show_warning input_error_title enter_number_body] \<rparr>)"

definition prev_page :: "api \<Rightarrow> app \<Rightarrow> app" where
  "prev_page api st =
     (if current_offset st \<le> 0 then st
      else
        let new_offset = max 0 (current_offset st - current_limit st);
            st1 = st\<lparr> offset_var := str_int new_offset, current_offset := new_offset \<rparr>
        in do_search api (current_keywords st1) (str_int new_offset)
             (str_int (current_limit st1)) st1)"

definition next_page :: "api \<Rightarrow> app \<Rightarrow> app" where
  "next_page api st =
     (let new_offset = current_offset st + current_limit st;
          st1 = st\<lparr> offset_var := str_int new_offset, current_offset := new_offset \<rparr>
      in do_search api (current_keywords st1) (str_int new_offset)
           (str_int (current_limit st1)) st1)"

text \<open>
  \<open>goto_offset\<close>: an empty entry returns silently; a text that is not an integer and a
  negative integer both end in the \<open>except ValueError\<close> branch, before any write.
\<close>

definition goto_offset :: "(pystr \<Rightarrow> int option) \<Rightarrow> api \<Rightarrow> app \<Rightarrow> app" where
  "goto_offset py_int api st =
     (let offset_str = strip (goto_var st) in
      if offset_str = [] then st
      else case py_int offset_str of
             None \<Rightarrow> st\<lparr> events := events st @ [Show_warning input_error_title enter_offset_body] \<rparr>
           | Some offset \<Rightarrow>
               if offset < 0 then
                 st\<lparr> events := events st @ [Show_warning input_error_title enter_offset_body] \<rparr>
               else
                 let st1 = st\<lparr> offset_var := str_int offset, current_offset := offset \<rparr>
                 in do_search api (current_keywords st1) (str_int offset)
                      (str_int (current_limit st1)) st1)"

text \<open>\<open>reset_search\<close>: the limit is the one attribute of the search state it keeps.\<close>

definition reset_search :: "app \<Rightarrow> app" where
  "reset_search st =
     st\<lparr> keyword_var := [], offset_var := lit ''0'', goto_var := [],
         download_log_text := [],
         detail_download_status := [],
         page_label := page_label_text 0 0,
         prev_btn := False, next_btn := False, download_btn := False,
         batch_download_btn := False, test_download_btn := False,
         current_keywords := [], current_offset := 0, current_result := None,
         song_details := [], selected_song := None,
         events := events st @ [Set_status ready_status] \<rparr>"

text \<open>
  The paging commands of the user interface: the two page buttons, the jump button
  after typing a text into the jump entry, and the reset button.
\<close>

datatype page_op = Next | Prev | Goto pystr | Reset

fun page_step :: "(pystr \<Rightarrow> int option) \<Rightarrow> api \<Rightarrow> page_op \<Rightarrow> app \<Rightarrow> app" where
  "page_step py_int api Next st = next_page api st"
| "page_step py_int api Prev st = prev_page api st"
| "page_step py_int api (Goto entry) st = goto_offset py_int api (st\<lparr> goto_var := entry \<rparr>)"
| "page_step py_int api Reset st = reset_search st"

definition run_ops :: "(pystr \<Rightarrow> int option) \<Rightarrow> api \<Rightarrow> page_op list \<Rightarrow> app \<Rightarrow> app" where
  "run_ops py_int api ops st = fold (page_step py_int api) ops st"

section \<open>Settings\<close>

text \<open>
  What \<open>load_settings\<close> finds: no file \<open>settings.json\<close>; a file whose opening or decoding
  raises (with the text of the exception); or a file that decodes to a value.
\<close>

datatype settings_file = No_file | Load_raises pystr | Decoded pyval

text \<open>\<open>d.get(key, default)\<close> on the items of a dictionary.\<close>

definition dict_get :: "(pystr \<times> pyval) list \<Rightarrow> pystr \<Rightarrow> pyval \<Rightarrow> pyval" where
  "dict_get d key dflt = (case map_of d key of None \<Rightarrow> dflt | Some v \<Rightarrow> v)"

definition default_naming_format :: pyval where
  "default_naming_format = PStr fmt_title_dash_artist"

definition default_download_dir :: pyval where
  "default_download_dir = PStr (lit ''downloads'')"

text \<open>
  \<open>load_settings\<close>. With no file nothing is assigned. A value that is not a dictionary
  has no \<open>get\<close>: the \<open>AttributeError\<close> is caught like every other exception, and the
  handler assigns both defaults. A dictionary gives each attribute the stored value, or
  the default where the key is missing; the stored value is taken as it is.
\<close>

definition load_settings :: "settings_file \<Rightarrow> app \<Rightarrow> app" where
  "load_settings file st =
     (case file of
        No_file \<Rightarrow> st
      | Load_raises e \<Rightarrow>
          st\<lparr> naming_format := default_naming_format, download_dir := default_download_dir \<rparr>
      | Decoded (PDict settings) \<Rightarrow>
          st\<lparr> naming_format := dict_get settings (lit ''naming_format'') default_naming_format,
               download_dir := dict_get settings (lit ''download_dir'') default_download_dir \<rparr>
      | Decoded _ \<Rightarrow>
          st\<lparr> naming_format := default_naming_format, download_dir := default_download_dir \<rparr>)"

text \<open>The program start: the constructor's defaults, then \<open>load_settings\<close>.\<close>

definition startup :: "settings_file \<Rightarrow> app" where
  "startup file = load_settings file init_app"

text \<open>
  A valid pair of preferences, as the settings document of the spec describes it: one of
  the two naming formats, and a directory given as a string.
\<close>

definition valid_settings :: "app \<Rightarrow> bool" where
  "valid_settings st \<longleftrightarrow>
     (naming_format st = PStr fmt_title_only \<or> naming_format st = PStr fmt_title_dash_artist)
     \<and> (case download_dir st of PStr d \<Rightarrow> True | _ \<Rightarrow> False)"

section \<open>The network, the clock and the file system\<close>

text \<open>A \<open>requests\<close> response: final URL after redirects, status, body, headers.\<close>

record response =
  url :: pystr
  status_code :: int
  content :: "nat list"
  headers :: "(pystr \<times> pystr) list"

text \<open>
  \<open>requests.get\<close> and \<open>requests.head\<close> return a response or raise: a
  \<open>RequestException\<close> or some other exception, each with the text \<open>str(e)\<close>.
\<close>

datatype http_result = Request_exception pystr | Other_exception pystr | Response response

text \<open>
  What the outside answers. The network and the clock are asked at a moment (the \<open>clock\<close>
  of the state), so that two requests for one link can differ. \<open>mkdir_error\<close> and
  \<open>write_error\<close> say whether \<open>os.makedirs\<close> and writing a new file raise, with the text
  of the exception. \<open>type_error_text\<close> is the text of the \<open>TypeError\<close> the path
  functions raise on a value that is not a string, and \<open>py_str\<close> is \<open>str\<close> on a value.
\<close>

record env =
  http_get :: "nat \<Rightarrow> pystr \<Rightarrow> http_result"
  http_head :: "nat \<Rightarrow> pystr \<Rightarrow> http_result"
  now :: "nat \<Rightarrow> pystr"
  mkdir_error :: "nat \<Rightarrow> pystr \<Rightarrow> pystr option"
  write_error :: "nat \<Rightarrow> pystr \<Rightarrow> pystr option"
  type_error_text :: "pyval \<Rightarrow> pystr"
  py_str :: "pyval \<Rightarrow> pystr"

text \<open>
  Paths are compared as strings: \<open>os.path.exists\<close> looks the text up among the paths
  that exist. \<open>os.path.join\<close>, \<open>os.path.splitext\<close> and \<open>os.path.basename\<close> are the
  POSIX ones, with \<open>/\<close> as separator.
\<close>

definition path_exists :: "(pystr \<times> node) list \<Rightarrow> pystr \<Rightarrow> bool" where
  "path_exists files p \<longleftrightarrow> map_of files p \<noteq> None"

definition path_join :: "pystr \<Rightarrow> pystr \<Rightarrow> pystr" where
  "path_join a b =
     (if b \<noteq> [] \<and> hd b = 0x2F then b
      else if a = [] \<or> last a = 0x2F then a @ b
      else a @ [0x2F] @ b)"

text \<open>\<open>p.rfind(c)\<close>: the index of the last \<open>c\<close>, or \<open>-1\<close>.\<close>

fun rfind :: "nat \<Rightarrow> pystr \<Rightarrow> int" where
  "rfind c [] = - 1"
| "rfind c (x # xs) =
     (let r = rfind c xs in if 0 \<le> r then r + 1 else if x = c then 0 else - 1)"

text \<open>
  \<open>splitext\<close>: the extension starts at the last dot, if that dot comes after the last
  separator and some character between the two is not a dot; otherwise it is empty.
\<close>

definition splitext :: "pystr \<Rightarrow> pystr \<times> pystr" where
  "splitext p =
     (let sepIndex = rfind 0x2F p;
          dotIndex = rfind 0x2E p
      in if dotIndex > sepIndex \<and>
            list_ex (\<lambda>c. c \<noteq> 0x2E) (drop (nat (sepIndex + 1)) (take (nat dotIndex) p))
         then (take (nat dotIndex) p, drop (nat dotIndex) p)
         else (p, []))"

definition basename :: "pystr \<Rightarrow> pystr" where
  "basename p = drop (nat (rfind 0x2F p + 1)) p"

section \<open>Downloading\<close>

definition sentinel_url :: pystr where
  "sentinel_url = lit ''https://music.163.com/#/404''"

definition unavailable_msg :: pystr where
  "unavailable_msg =
     [0x65E0, 0x6CD5, 0x4E0B, 0x8F7D, 0x6B4C, 0x66F2, 0xFF0C, 0x8BF7, 0x68C0, 0x67E5, 0x49,
      0x44, 0x662F, 0x5426, 0x6B63, 0x786E]"

definition status_failed_prefix :: pystr where
  "status_failed_prefix =
     [0x4E0B, 0x8F7D, 0x5931, 0x8D25, 0xFF0C, 0x72B6, 0x6001, 0x7801, 0x3A, 0x20]"

definition network_failed_prefix :: pystr where
  "network_failed_prefix =
     [0x7F51, 0x7EDC, 0x8BF7, 0x6C42, 0x5931, 0x8D25, 0x3A, 0x20]"

definition download_failed_prefix :: pystr where
  "download_failed_prefix =
     [0x4E0B, 0x8F7D, 0x5931, 0x8D25, 0x3A, 0x20]"

definition fallback_prefix :: pystr where
  "fallback_prefix =
     [0x6B4C, 0x66F2, 0x5F]"

definition test_error_title :: pystr where
  "test_error_title =
     [0x6D4B, 0x8BD5, 0x9519, 0x8BEF]"

definition download_error_title :: pystr where
  "download_error_title =
     [0x4E0B, 0x8F7D, 0x9519, 0x8BEF]"

definition select_song_body :: pystr where
  "select_song_body =
     [0x8BF7, 0x5148, 0x9009, 0x62E9, 0x4E00, 0x9996, 0x6B4C, 0x66F2]"

definition testing_text :: pystr where
  "testing_text =
     [0x6B63, 0x5728, 0x6D4B, 0x8BD5, 0x94FE, 0x63A5, 0x2E, 0x2E, 0x2E]"

definition link_valid_prefix :: pystr where
  "link_valid_prefix =
     [0x2705, 0x20, 0x94FE, 0x63A5, 0x6709, 0x6548, 0x20, 0x7C, 0x20, 0x5927, 0x5C0F, 0x3A,
      0x20]"

definition link_valid_middle :: pystr where
  "link_valid_middle =
     [0x20, 0x62, 0x79, 0x74, 0x65, 0x73, 0x20, 0x7C, 0x20, 0x7C7B, 0x578B, 0x3A, 0x20]"

definition unknown_value :: pystr where
  "unknown_value =
     [0x672A, 0x77E5]"

definition link_404_text :: pystr where
  "link_404_text =
     [0x274C, 0x20, 0x94FE, 0x63A5, 0x6307, 0x5411, 0x34, 0x30, 0x34, 0x9875, 0x9762,
      0xFF08, 0x53EF, 0x80FD, 0x6CA1, 0x6709, 0x4E0B, 0x8F7D, 0x6743, 0x9650, 0xFF09]"

definition link_failed_prefix :: pystr where
  "link_failed_prefix =
     [0x274C, 0x20, 0x94FE, 0x63A5, 0x6D4B, 0x8BD5, 0x5931, 0x8D25, 0x3A, 0x20, 0x48, 0x54,
      0x54, 0x50, 0x20]"

definition link_exception_prefix :: pystr where
  "link_exception_prefix =
     [0x274C, 0x20, 0x94FE, 0x63A5, 0x6D4B, 0x8BD5, 0x5F02, 0x5E38, 0x3A, 0x20]"

definition downloading_prefix :: pystr where
  "downloading_prefix =
     [0x6B63, 0x5728, 0x4E0B, 0x8F7D, 0x3A, 0x20]"

definition downloading_text :: pystr where
  "downloading_text =
     [0x4E0B, 0x8F7D, 0x4E2D, 0x2E, 0x2E, 0x2E]"

definition ok_prefix :: pystr where
  "ok_prefix =
     [0x2705, 0x20, 0x4E0B, 0x8F7D, 0x6210, 0x529F, 0x3A, 0x20]"

definition done_prefix :: pystr where
  "done_prefix =
     [0x2705, 0x20, 0x4E0B, 0x8F7D, 0x5B8C, 0x6210, 0x3A, 0x20]"

definition download_ok_title :: pystr where
  "download_ok_title =
     [0x4E0B, 0x8F7D, 0x6210, 0x529F]"

definition saved_to_body :: pystr where
  "saved_to_body =
     [0x6B4C, 0x66F2, 0x5DF2, 0x4E0B, 0x8F7D, 0x5230, 0x3A, 0xA]"

definition fail_prefix :: pystr where
  "fail_prefix =
     [0x274C, 0x20, 0x4E0B, 0x8F7D, 0x5931, 0x8D25, 0x3A, 0x20]"

definition download_failed_title :: pystr where
  "download_failed_title =
     [0x4E0B, 0x8F7D, 0x5931, 0x8D25]"

definition download_failed_body :: pystr where
  "download_failed_body =
     [0x4E0B, 0x8F7D, 0x5931, 0x8D25, 0x3A, 0xA]"

definition batch_progress_prefix :: pystr where
  "batch_progress_prefix =
     [0x6279, 0x91CF, 0x4E0B, 0x8F7D, 0x4E2D, 0x2E, 0x2E, 0x2E, 0x20]"

definition batch_status_prefix :: pystr where
  "batch_status_prefix =
     [0x6279, 0x91CF, 0x4E0B, 0x8F7D, 0x5B8C, 0x6210, 0x3A, 0x20, 0x6210, 0x529F, 0x20]"

definition batch_failed_middle :: pystr where
  "batch_failed_middle =
     [0x20, 0x9996, 0xFF0C, 0x5931, 0x8D25, 0x20]"

definition batch_songs_suffix :: pystr where
  "batch_songs_suffix =
     [0x20, 0x9996]"

definition batch_log_prefix :: pystr where
  "batch_log_prefix =
     [0x6279, 0x91CF, 0x4E0B, 0x8F7D, 0x5B8C, 0x6210, 0x3A, 0x20, 0x5171, 0x20]"

definition batch_ok_middle :: pystr where
  "batch_ok_middle =
     [0x20, 0x9996, 0xFF0C, 0x6210, 0x529F, 0x20]"

definition batch_done_title :: pystr where
  "batch_done_title =
     [0x6279, 0x91CF, 0x4E0B, 0x8F7D, 0x5B8C, 0x6210]"

definition batch_done_body :: pystr where
  "batch_done_body =
     [0x6279, 0x91CF, 0x4E0B, 0x8F7D, 0x5B8C, 0x6210, 0xFF01, 0xA, 0x6210, 0x529F, 0x4E0B,
      0x8F7D, 0x20]"

definition batch_done_to :: pystr where
  "batch_done_to =
     [0x20, 0x9996, 0x6B4C, 0x66F2, 0x5230, 0x20]"

definition batch_done_folder :: pystr where
  "batch_done_folder =
     [0x20, 0x6587, 0x4EF6, 0x5939, 0x3002]"

definition batch_see_log :: pystr where
  "batch_see_log =
     [0x20, 0x9996, 0x3002, 0xA, 0x8BF7, 0x67E5, 0x770B, 0x4E0B, 0x8F7D, 0x8BB0, 0x5F55,
      0x83B7, 0x53D6, 0x8BE6, 0x7EC6, 0x4FE1, 0x606F, 0x3002]"

text \<open>Truth of an optional string argument: \<open>None\<close> and the empty string are falsy.\<close>

definition truthy :: "pystr option \<Rightarrow> bool" where
  "truthy s = (case s of None \<Rightarrow> False | Some t \<Rightarrow> t \<noteq> [])"

definition text_of :: "pystr option \<Rightarrow> pystr" where
  "text_of s = (case s of None \<Rightarrow> [] | Some t \<Rightarrow> t)"

text \<open>
  Lines 758-759: the directory is created when it does not exist. \<open>os.makedirs\<close> of the
  empty path always raises. The parents \<open>makedirs\<close> creates on the way are strict
  prefixes of the directory and are never probed, so only the directory is recorded.
\<close>

definition ensure_dir :: "env \<Rightarrow> pystr \<Rightarrow> app \<Rightarrow> pystr + app" where
  "ensure_dir env dir st =
     (if path_exists (fs st) dir then Inr st
      else if dir = [] then Inl (lit ''[Errno 2] No such file or directory: '' @ [0x27, 0x27])
      else case mkdir_error env (clock st) dir of
             Some e \<Rightarrow> Inl e
           | None \<Rightarrow> Inr (st\<lparr> fs := (dir, Dir) # fs st \<rparr>))"

text \<open>The name tried in round \<open>counter\<close> of the loop: \<open>f"{base_name} ({counter}){ext}"\<close>.\<close>

definition numbered_name :: "pystr \<Rightarrow> nat \<Rightarrow> pystr" where
  "numbered_name filename counter =
     (case splitext filename of
        (base_name, ext) \<Rightarrow> base_name @ lit '' ('' @ str_nat counter @ lit '')'' @ ext)"

text \<open>
  Lines 771-776, the loop that avoids an existing name, with its two variables
  \<open>full_path\<close> and \<open>counter\<close>.
\<close>

function avoid_duplicate ::
  "(pystr \<times> node) list \<Rightarrow> pystr \<Rightarrow> pystr \<Rightarrow> pystr \<Rightarrow> nat \<Rightarrow> pystr" where
  "avoid_duplicate files dir filename full_path counter =
     (if path_exists files full_path
      then avoid_duplicate files dir filename
             (path_join dir (numbered_name filename counter)) (counter + 1)
      else full_path)"
  by pat_completeness auto

text \<open>Lines 762-765: the file name, from name and artist when both are given.\<close>

definition chosen_filename :: "pyval \<Rightarrow> int \<Rightarrow> pystr option \<Rightarrow> pystr option \<Rightarrow> pystr" where
  "chosen_filename fmt sid song_name artist =
     (if truthy song_name \<and> truthy artist
      then generate_filename fmt (text_of song_name) (text_of artist)
      else fallback_prefix @ str_int sid @ lit ''.mp3'')"

text \<open>
  Lines 757-781 and the handler of line 785: what happens to a response that passed
  the two checks. Every exception of this part ends in the same failure message. A
  write that fails is taken to leave no file behind.
\<close>

definition save_response ::
  "env \<Rightarrow> int \<Rightarrow> pystr option \<Rightarrow> pystr option \<Rightarrow> response \<Rightarrow> app \<Rightarrow> (bool \<times> pystr) \<times> app" where
  "save_response env sid song_name artist resp st =
     (case download_dir st of
        PStr dir \<Rightarrow>
          (case ensure_dir env dir st of
             Inl e \<Rightarrow> ((False, download_failed_prefix @ e), st)
           | Inr st2 \<Rightarrow>
               let filename = chosen_filename (naming_format st2) sid song_name artist;
                   full_path = avoid_duplicate (fs st2) dir filename (path_join dir filename) 1
               in case write_error env (clock st2) full_path of
                    Some e \<Rightarrow> ((False, download_failed_prefix @ e), st2)
                  | None \<Rightarrow>
                      ((True, full_path),
                       st2\<lparr> fs := (full_path, File (content resp)) # fs st2 \<rparr>))
      | other \<Rightarrow> ((False, download_failed_prefix @ type_error_text env other), st))"

text \<open>
  \<open>fetch_and_download_song(song_id, song_name, artist, download_link)\<close>. The result is
  the pair the source returns, success flag and path or message, with the new state.
\<close>

definition fetch_and_download_song ::
  "env \<Rightarrow> int \<Rightarrow> pystr option \<Rightarrow> pystr option \<Rightarrow> pystr option \<Rightarrow> app \<Rightarrow> (bool \<times> pystr) \<times> app" where
  "fetch_and_download_song env sid song_name artist link st =
     (let used_link = (if truthy link then text_of link else media_link sid);
          st1 = st\<lparr> events := events st @ [Http_get used_link], clock := Suc (clock st) \<rparr>
      in case http_get env (clock st) used_link of
           Request_exception e \<Rightarrow> ((False, network_failed_prefix @ e), st1)
         | Other_exception e \<Rightarrow> ((False, download_failed_prefix @ e), st1)
         | Response resp \<Rightarrow>
             if url resp = sentinel_url then ((False, unavailable_msg), st1)
             else if status_code resp \<noteq> 200 then
               ((False, status_failed_prefix @ str_int (status_code resp)), st1)
             else save_response env sid song_name artist resp st1)"


text \<open>\<open>add_download_log(message)\<close>: the time is read, one piece is put at the end of the box.\<close>

definition log_entry :: "pystr \<Rightarrow> pystr \<Rightarrow> pystr" where
  "log_entry timestamp message = lit ''['' @ timestamp @ lit ''] '' @ message"

definition add_download_log :: "env \<Rightarrow> pystr \<Rightarrow> app \<Rightarrow> app" where
  "add_download_log env message st =
     st\<lparr> download_log_text := download_log_text st @ [log_entry (now env (clock st)) message @ [0xA]],
         clock := Suc (clock st) \<rparr>"

text \<open>
  \<open>_do_download\<close>. The calls handed to \<open>root.after\<close> take effect in the order in which
  they are handed over.
\<close>

definition do_download :: "env \<Rightarrow> int \<Rightarrow> pystr \<Rightarrow> pystr \<Rightarrow> pystr \<Rightarrow> app \<Rightarrow> app" where
  "do_download env sid song_name artist link st =
     (let st1 = st\<lparr> events := events st @ [Set_status (downloading_prefix @ song_name)],
                     detail_download_status := downloading_text \<rparr>
      in case fetch_and_download_song env sid (Some song_name) (Some artist) (Some link) st1 of
           ((success, result), st2) \<Rightarrow>
             if success then
               (let st3 = add_download_log env (ok_prefix @ song_name @ lit '' - '' @ artist) st2
                in st3\<lparr> detail_download_status := done_prefix @ basename result,
                        events := events st3 @ [Show_info download_ok_title (saved_to_body @ result)] \<rparr>)
             else
               (let st3 = add_download_log env (fail_prefix @ song_name @ lit '' - '' @ result) st2
                in st3\<lparr> detail_download_status := fail_prefix @ result,
                        events := events st3 @
                          [Show_error download_failed_title (download_failed_body @ result)] \<rparr>))"

definition download_selected_song :: "env \<Rightarrow> app \<Rightarrow> app" where
  "download_selected_song env st =
     (case selected_song st of
        None \<Rightarrow> st\<lparr> events := events st @ [Show_warning download_error_title select_song_body] \<rparr>
      | Some song \<Rightarrow>
          do_download env (song_id song) (name song) (artist_str song) (download_link song) st)"

text \<open>The two messages a track leaves in the download record during a batch.\<close>

definition track_message :: "song_info \<Rightarrow> bool \<times> pystr \<Rightarrow> pystr" where
  "track_message song_info outcome =
     (if fst outcome
      then ok_prefix @ name song_info @ lit '' - '' @ artist_str song_info
      else fail_prefix @ name song_info @ lit '' - '' @ artist_str song_info @
           lit '' ('' @ snd outcome @ lit '')'')"

definition progress_text :: "nat \<Rightarrow> nat \<Rightarrow> pystr" where
  "progress_text idx total_n = batch_progress_prefix @ str_nat idx @ lit ''/'' @ str_nat total_n"

text \<open>
  The loop of \<open>_do_batch_download\<close> over \<open>enumerate(songs_info)\<close>, with the index \<open>i\<close>
  and the two counters. A status text and a line of the download record take their
  place in the trace when the loop hands them to \<open>root.after\<close>.
\<close>

fun batch_loop ::
  "env \<Rightarrow> nat \<Rightarrow> nat \<Rightarrow> song_info list \<Rightarrow> nat \<Rightarrow> nat \<Rightarrow> app \<Rightarrow> (nat \<times> nat) \<times> app" where
  "batch_loop env total_n i [] success_count fail_count st = ((success_count, fail_count), st)"
| "batch_loop env total_n i (song_info # rest) success_count fail_count st =
     (let st1 = st\<lparr> events := events st @ [Set_status (progress_text (i + 1) total_n)] \<rparr>
      in case fetch_and_download_song env (song_id song_info) (Some (name song_info))
                (Some (artist_str song_info)) (Some (download_link song_info)) st1 of
           ((success, result), st2) \<Rightarrow>
             if success then
               batch_loop env total_n (i + 1) rest (success_count + 1) fail_count
                 (add_download_log env (track_message song_info (success, result)) st2)
             else
               batch_loop env total_n (i + 1) rest success_count (fail_count + 1)
                 (add_download_log env (track_message song_info (success, result)) st2))"

text \<open>The link a batch attempt requests: the track's own, or the media link when it is empty.\<close>

definition attempted_link :: "song_info \<Rightarrow> pystr" where
  "attempted_link song_info =
     (if download_link song_info \<noteq> [] then download_link song_info
      else media_link (song_id song_info))"

text \<open>
  What \<open>fetch_and_download_song\<close> returned for each track of the loop, in order. The
  function runs the loop as \<open>batch_loop\<close> does and keeps the outcomes.
\<close>

fun batch_outcomes :: "env \<Rightarrow> nat \<Rightarrow> nat \<Rightarrow> song_info list \<Rightarrow> app \<Rightarrow> (bool \<times> pystr) list" where
  "batch_outcomes env total_n i [] st = []"
| "batch_outcomes env total_n i (song_info # rest) st =
     (let st1 = st\<lparr> events := events st @ [Set_status (progress_text (i + 1) total_n)] \<rparr>
      in case fetch_and_download_song env (song_id song_info) (Some (name song_info))
                (Some (artist_str song_info)) (Some (download_link song_info)) st1 of
           (outcome, st2) \<Rightarrow>
             outcome # batch_outcomes env total_n (i + 1) rest
                         (add_download_log env (track_message song_info outcome) st2))"

definition batch_status_text :: "nat \<Rightarrow> nat \<Rightarrow> pystr" where
  "batch_status_text success_count fail_count =
     batch_status_prefix @ str_nat success_count @ batch_failed_middle @ str_nat fail_count @
     batch_songs_suffix"

definition batch_summary :: "nat \<Rightarrow> nat \<Rightarrow> nat \<Rightarrow> pystr" where
  "batch_summary total_n success_count fail_count =
     batch_log_prefix @ str_nat total_n @ batch_ok_middle @ str_nat success_count @
     batch_failed_middle @ str_nat fail_count @ batch_songs_suffix"

definition batch_dialog :: "env \<Rightarrow> nat \<Rightarrow> nat \<Rightarrow> app \<Rightarrow> event" where
  "batch_dialog env success_count fail_count st =
     (if fail_count = 0 then
        Show_info batch_done_title
          (batch_done_body @ str_nat success_count @ batch_done_to @
           py_str env (download_dir st) @ batch_done_folder)
      else
        Show_warning batch_done_title
          (batch_done_body @ str_nat success_count @ batch_failed_middle @
           str_nat fail_count @ batch_see_log))"

definition do_batch_download :: "env \<Rightarrow> song_info list \<Rightarrow> app \<Rightarrow> app" where
  "do_batch_download env songs_info st =
     (let total_n = length songs_info;
          st0 = st\<lparr> events := events st @ [Set_status (progress_text 0 total_n)] \<rparr>
      in case batch_loop env total_n 0 songs_info 0 0 st0 of
           ((success_count, fail_count), st1) \<Rightarrow>
             let st2 = st1\<lparr> events := events st1 @
                         [Set_status (batch_status_text success_count fail_count)] \<rparr>;
                 st3 = add_download_log env (batch_summary total_n success_count fail_count) st2
             in st3\<lparr> events := events st3 @ [batch_dialog env success_count fail_count st3] \<rparr>)"

text \<open>
  \<open>test_download_link\<close>: the status is compared with 200 before the final URL is
  compared with the 404 page.
\<close>

text \<open>
  \<open>response.headers.get(key, default)\<close>: the headers of \<open>requests\<close> compare names
  without regard to case. The list holds the items of that dictionary; header names
  are ASCII, so lower-casing touches \<open>A\<close> to \<open>Z\<close> only.
\<close>

definition ascii_lower :: "pystr \<Rightarrow> pystr" where
  "ascii_lower s = map (\<lambda>c. if 0x41 \<le> c \<and> c \<le> 0x5A then c + 0x20 else c) s"

definition header_or_unknown :: "(pystr \<times> pystr) list \<Rightarrow> pystr \<Rightarrow> pystr" where
  "header_or_unknown hs key =
     (case map_of (map (\<lambda>(k, v). (ascii_lower k, v)) hs) (ascii_lower key) of
        None \<Rightarrow> unknown_value
      | Some v \<Rightarrow> v)"

definition link_valid_text :: "pystr \<Rightarrow> pystr \<Rightarrow> pystr" where
  "link_valid_text content_length content_type =
     link_valid_prefix @ content_length @ link_valid_middle @ content_type"

definition test_download_link :: "env \<Rightarrow> app \<Rightarrow> app" where
  "test_download_link env st =
     (case selected_song st of
        None \<Rightarrow> st\<lparr> events := events st @ [Show_warning test_error_title select_song_body] \<rparr>
      | Some song \<Rightarrow>
          let link = download_link song;
              st1 = st\<lparr> detail_download_status := testing_text,
                        events := events st @ [Http_head link], clock := Suc (clock st) \<rparr>
          in case http_head env (clock st) link of
               Response resp \<Rightarrow>
                 if status_code resp = 200 then
                   st1\<lparr> detail_download_status :=
                          link_valid_text (header_or_unknown (headers resp) (lit ''content-length''))
                            (header_or_unknown (headers resp) (lit ''content-type'')) \<rparr>
                 else if url resp = sentinel_url then
                   st1\<lparr> detail_download_status := link_404_text \<rparr>
                 else
                   st1\<lparr> detail_download_status :=
                          link_failed_prefix @ str_int (status_code resp) \<rparr>
             | Request_exception e \<Rightarrow> st1\<lparr> detail_download_status := link_exception_prefix @ e \<rparr>
             | Other_exception e \<Rightarrow> st1\<lparr> detail_download_status := link_exception_prefix @ e \<rparr>)"

section \<open>An example run\<close>

text \<open>
  The scenario of the spec: the keyword U+6D4B U+8BD5 is searched with offset 0 and limit
  20, the API answers with a page of 20 songs and \<open>songCount = 137\<close>; every later request
  is answered with an empty page.
\<close>

definition test_keyword :: pystr where
  "test_keyword = [0x6D4B, 0x8BD5]"

definition one_song :: raw_song where
  "one_song = \<lparr> rs_id = Some 1, rs_name = Some (lit ''s''), rs_artists = [Some (lit ''a'')] \<rparr>"

definition full_page :: page where
  "full_page = \<lparr> songs = replicate 20 one_song, songCount = Some 137 \<rparr>"

definition empty_page :: page where
  "empty_page = \<lparr> songs = [], songCount = Some 137 \<rparr>"

definition example_api :: api where
  "example_api t keywords offset limit = (if t = 0 then Data full_page else Data empty_page)"

definition after_search :: app where
  "after_search = on_search ascii_int example_api (init_app\<lparr> keyword_var := test_keyword \<rparr>)"

definition after_next :: app where
  "after_next = next_page example_api after_search"

text \<open>
  An outside for example runs: the link \<open>gone\<close> ends on the 404 page, which answers
  with status 200; \<open>denied\<close> answers 403; \<open>down\<close> cannot be reached; every other link
  delivers three bytes. Directories can be made and files written.
\<close>

definition sentinel_response :: response where
  "sentinel_response =
     \<lparr> url = sentinel_url, status_code = 200, content = [],
       headers = [(lit ''content-length'', lit ''1234''), (lit ''content-type'', lit ''text/html'')] \<rparr>"

definition example_get :: "nat \<Rightarrow> pystr \<Rightarrow> http_result" where
  "example_get t link =
     (if link = lit ''gone'' then Response sentinel_response
      else if link = lit ''denied'' then
        Response \<lparr> url = link, status_code = 403, content = [], headers = [] \<rparr>
      else if link = lit ''down'' then Request_exception (lit ''timed out'')
      else Response \<lparr> url = link, status_code = 200, content = [1, 2, 3], headers = [] \<rparr>)"

definition example_env :: env where
  "example_env =
     \<lparr> http_get = example_get,
       http_head = example_get,
       now = (\<lambda>t. lit ''2025-01-01 00:00:00''),
       mkdir_error = (\<lambda>t p. None),
       write_error = (\<lambda>t p. None),
       type_error_text = (\<lambda>v. lit ''TypeError''),
       py_str = (\<lambda>v. case v of PStr s \<Rightarrow> s | _ \<Rightarrow> []) \<rparr>"

definition gone_song :: song_info where
  "gone_song = \<lparr> song_id = 1, name = lit ''A'', artist_str = lit ''X'', download_link = lit ''gone'' \<rparr>"


text \<open>
  A directory \<open>d\<close> in which \<open>a.mp3\<close> and \<open>a (1).mp3\<close> exist, and the states after one
  and after two downloads of the same track from the link \<open>ok\<close>.
\<close>

definition taken_files :: "(pystr \<times> node) list" where
  "taken_files = [(lit ''d/a.mp3'', File []), (lit ''d/a (1).mp3'', File [])]"



section \<open>Facts about strings\<close>

lemma fold_replace_char:
  "fold (\<lambda>char t. replace_char char u t) cs s =
     map (\<lambda>c. if c \<in> set cs then u else c) s"
  by (induction cs arbitrary: s) (auto simp: replace_char_def)

lemma set_strip_subset: "set (strip s) \<subseteq> set s"
proof -
  have "set (strip s) \<subseteq> set (dropWhile isspace s)"
    unfolding strip_def using set_dropWhileD by fastforce
  also have "\<dots> \<subseteq> set s"
    using set_dropWhileD by fastforce
  finally show ?thesis .
qed

lemma strip_no_leading: "strip s \<noteq> [] \<Longrightarrow> \<not> isspace (hd (strip s))"
proof -
  assume ne: "strip s \<noteq> []"
  let ?d = "dropWhile isspace s"
  have "strip s = rev (dropWhile isspace (rev ?d))" by (simp add: strip_def)
  then obtain ws where d: "?d = strip s @ ws"
    by (metis rev_append rev_rev_ident takeWhile_dropWhile_id)
  from ne d have "?d \<noteq> []" by auto
  then have "\<not> isspace (hd ?d)" by (rule hd_dropWhile)
  with d ne show ?thesis by (metis hd_append2)
qed

lemma strip_no_trailing: "strip s \<noteq> [] \<Longrightarrow> \<not> isspace (last (strip s))"
proof -
  assume ne: "strip s \<noteq> []"
  let ?r = "dropWhile isspace (rev (dropWhile isspace s))"
  have s: "strip s = rev ?r" by (simp add: strip_def)
  with ne have "?r \<noteq> []" by auto
  then have "\<not> isspace (hd ?r)" by (rule hd_dropWhile)
  with s \<open>?r \<noteq> []\<close> show ?thesis by (simp add: last_rev)
qed

lemma clean_filename_map:
  "clean_filename text =
     strip (map (\<lambda>c. if c \<in> forbidden then underscore else c) text)"
proof -
  have "set illegal_chars = forbidden"
    by (auto simp: illegal_chars_def forbidden_def)
  then show ?thesis
    by (simp add: clean_filename_def fold_replace_char)
qed

lemma clean_filename_no_forbidden: "set (clean_filename text) \<inter> forbidden = {}"
proof -
  have "underscore \<notin> forbidden" by (simp add: underscore_def forbidden_def)
  then have "set (map (\<lambda>c. if c \<in> forbidden then underscore else c) text) \<inter> forbidden = {}"
    by auto
  with set_strip_subset show ?thesis
    unfolding clean_filename_map by blast
qed

lemma lit_mp3_no_forbidden: "set (lit ''.mp3'') \<inter> forbidden = {}"
  by (simp add: lit_def forbidden_def)

lemma lit_dash_no_forbidden: "set (lit '' - '') \<inter> forbidden = {}"
  by (simp add: lit_def forbidden_def)

lemma generate_filename_no_forbidden:
  "set (generate_filename fmt song_name artist) \<inter> forbidden = {}"
  using clean_filename_no_forbidden [of song_name] clean_filename_no_forbidden [of artist]
    lit_mp3_no_forbidden lit_dash_no_forbidden
  by (auto simp: generate_filename_def Let_def)

lemma generate_filename_example:
  "generate_filename (PStr fmt_title_dash_artist) (lit ''A/B:C'') (lit ''X*Y'')
     = lit ''A_B_C - X_Y.mp3''"
  by (simp add: generate_filename_def clean_filename_def strip_def replace_char_def
      illegal_chars_def underscore_def lit_def isspace_def fmt_title_only_def
      fmt_title_dash_artist_def)

section \<open>Facts about numbers, paths and the loop that avoids an existing name\<close>

lemma str_nat_nonempty: "str_nat n \<noteq> []"
  by (subst str_nat.simps) simp

lemma str_nat_last: "last (str_nat n) = 0x30 + n mod 10"
  by (subst str_nat.simps) simp

lemma str_nat_butlast: "butlast (str_nat n) = (if n < 10 then [] else str_nat (n div 10))"
  by (subst str_nat.simps) (simp add: butlast_append)

lemma str_nat_inject: "str_nat n = str_nat m \<Longrightarrow> n = m"
proof (induction n arbitrary: m rule: str_nat.induct)
  case (1 n)
  from "1.prems" have l: "n mod 10 = m mod 10"
    using str_nat_last [of n] str_nat_last [of m] by simp
  from "1.prems" have b: "(if n < 10 then [] else str_nat (n div 10))
      = (if m < 10 then [] else str_nat (m div 10))"
    using str_nat_butlast [of n] str_nat_butlast [of m] by simp
  show ?case
  proof (cases "n < 10")
    case True
    with b have "m < 10" by (metis str_nat_nonempty)
    with True l show ?thesis by simp
  next
    case False
    with b have m: "\<not> m < 10" by (metis str_nat_nonempty)
    with False b have "str_nat (n div 10) = str_nat (m div 10)" by simp
    with "1.IH" False have "n div 10 = m div 10" by blast
    with l show ?thesis by (metis div_mult_mod_eq)
  qed
qed

lemma numbered_name_inject:
  "numbered_name filename j = numbered_name filename k \<Longrightarrow> j = k"
  by (auto simp: numbered_name_def split: prod.splits dest: str_nat_inject)

lemma numbered_name_hd:
  "numbered_name filename j \<noteq> [] \<and> hd (numbered_name filename j) = hd (numbered_name filename k)"
  by (auto simp: numbered_name_def lit_def hd_append split: prod.splits)

lemma path_join_inject:
  assumes "x \<noteq> []" and "y \<noteq> []" and "hd x = hd y"
    and "path_join dir x = path_join dir y"
  shows "x = y"
proof (cases "hd x = 0x2F")
  case True
  with assms show ?thesis by (simp add: path_join_def)
next
  case False
  with assms have "hd y \<noteq> 0x2F" by simp
  with False assms(4) show ?thesis
    by (cases "dir = [] \<or> last dir = 0x2F") (simp_all add: path_join_def)
qed

lemma path_join_numbered_inject:
  assumes "path_join dir (numbered_name filename j) = path_join dir (numbered_name filename k)"
  shows "j = k"
proof -
  have "numbered_name filename j \<noteq> []" and "numbered_name filename k \<noteq> []"
    and "hd (numbered_name filename j) = hd (numbered_name filename k)"
    using numbered_name_hd by blast+
  from this assms have "numbered_name filename j = numbered_name filename k"
    by (rule path_join_inject)
  then show ?thesis by (rule numbered_name_inject)
qed

lemma path_exists_iff: "path_exists files p \<longleftrightarrow> p \<in> fst ` set files"
  by (simp add: path_exists_def map_of_eq_None_iff)

lemma finite_taken_numbers:
  "finite {k. path_exists files (path_join dir (numbered_name filename k))}"
proof -
  let ?g = "\<lambda>k. path_join dir (numbered_name filename k)"
  have "inj ?g"
    by (rule injI) (rule path_join_numbered_inject)
  then have fin: "finite (?g -` (fst ` set files))"
    by (intro finite_vimageI) simp_all
  have "{k. path_exists files (?g k)} = ?g -` (fst ` set files)"
    unfolding path_exists_iff by blast
  with fin show ?thesis by metis
qed

termination avoid_duplicate
proof (relation "measure (\<lambda>(files, dir, filename, full_path, counter).
    2 * card {k. counter \<le> k \<and> path_exists files (path_join dir (numbered_name filename k))}
    + (if path_exists files full_path then 1 else 0))", goal_cases)
  case 1
  show ?case by simp
next
  case (2 files dir filename full_path counter)
  let ?taken = "\<lambda>c. {k. c \<le> k \<and> path_exists files (path_join dir (numbered_name filename k))}"
  have fin: "finite (?taken counter)"
    using finite_taken_numbers [of files dir filename] by (rule rev_finite_subset) auto
  show ?case
  proof (cases "path_exists files (path_join dir (numbered_name filename counter))")
    case True
    then have "?taken counter = insert counter (?taken (counter + 1))"
      by (auto simp: le_Suc_eq)
    moreover have "counter \<notin> ?taken (counter + 1)" by simp
    moreover have "finite (?taken (counter + 1))"
      using fin by (rule rev_finite_subset) auto
    ultimately have "card (?taken counter) = Suc (card (?taken (counter + 1)))"
      by simp
    with 2 True show ?thesis by simp
  next
    case False
    then have "\<And>k. (counter \<le> k \<and> path_exists files (path_join dir (numbered_name filename k)))
        = (counter + 1 \<le> k \<and> path_exists files (path_join dir (numbered_name filename k)))"
      by (metis Suc_eq_plus1 Suc_leD Suc_leI le_neq_implies_less)
    then have "?taken counter = ?taken (counter + 1)"
      by simp
    with 2 False show ?thesis by simp
  qed
qed

declare avoid_duplicate.simps [simp del]

section \<open>Facts about searching and paging\<close>

lemma update_song_detail_paging:
  "current_offset (update_song_detail i st) = current_offset st"
  "current_limit (update_song_detail i st) = current_limit st"
  "current_keywords (update_song_detail i st) = current_keywords st"
  "prev_btn (update_song_detail i st) = prev_btn st"
  "next_btn (update_song_detail i st) = next_btn st"
  "events (update_song_detail i st) = events st"
  by (simp_all add: update_song_detail_def)

lemma display_results_paging:
  "current_offset (display_results data st) = current_offset st"
  "current_limit (display_results data st) = current_limit st"
  "current_keywords (display_results data st) = current_keywords st"
  by (simp_all add: display_results_def Let_def update_song_detail_paging)

lemma display_results_events:
  "\<exists>rest. events (display_results data st) = events st @ rest"
  by (simp add: display_results_def Let_def update_song_detail_paging)

lemma display_results_buttons:
  "songs data \<noteq> [] \<Longrightarrow>
     next_btn (display_results data st) = (current_limit st \<le> int (length (songs data))) \<and>
     prev_btn (display_results data st) = (0 < current_offset st)"
  by (simp add: display_results_def Let_def update_song_detail_paging)

lemma do_search_paging:
  "current_offset (do_search api k off lim st) = current_offset st"
  "current_limit (do_search api k off lim st) = current_limit st"
  "current_keywords (do_search api k off lim st) = current_keywords st"
  by (simp_all add: do_search_def Let_def display_results_paging split: reply.splits)

lemma do_search_events:
  "\<exists>rest. events (do_search api k off lim st) = events st @ Search k off lim # rest"
proof (cases "api (clock st) k off lim")
  case (Data data)
  obtain rest where
    "events (display_results data
        (st\<lparr>events := events st @ [Search k off lim], clock := Suc (clock st)\<rparr>))
       = events (st\<lparr>events := events st @ [Search k off lim], clock := Suc (clock st)\<rparr>) @ rest"
    using display_results_events by blast
  with Data show ?thesis by (simp add: do_search_def Let_def)
qed (simp_all add: do_search_def Let_def)

lemma page_step_invariant:
  "0 \<le> current_offset st \<and> 0 \<le> current_limit st \<Longrightarrow>
     0 \<le> current_offset (page_step py_int api op st) \<and>
     0 \<le> current_limit (page_step py_int api op st)"
  by (cases op)
    (auto simp: next_page_def prev_page_def goto_offset_def reset_search_def Let_def
      do_search_paging split: option.splits)

lemma run_ops_invariant:
  "0 \<le> current_offset st \<and> 0 \<le> current_limit st \<Longrightarrow>
     0 \<le> current_offset (run_ops py_int api ops st) \<and>
     0 \<le> current_limit (run_ops py_int api ops st)"
  unfolding run_ops_def
proof (induction ops arbitrary: st)
  case Nil
  then show ?case by simp
next
  case (Cons op ops)
  from page_step_invariant [OF Cons.prems]
  have "0 \<le> current_offset (page_step py_int api op st) \<and>
     0 \<le> current_limit (page_step py_int api op st)" .
  from Cons.IH [OF this] show ?case by simp
qed

lemma str_int_literals:
  "str_int 0 = lit ''0''" "str_int 20 = lit ''20''" "str_int 40 = lit ''40''"
  by (simp_all add: str_int_def str_nat.simps lit_def)

lemma ascii_int_literals:
  "ascii_int (lit ''0'') = Some 0" "ascii_int (lit ''20'') = Some 20"
  "ascii_int (lit ''40'') = Some 40" "ascii_int (lit ''-5'') = Some (- 5)"
  by (simp_all add: ascii_int_def strip_def lit_def isspace_def)

lemma strip_literals:
  "strip (lit ''0'') = lit ''0''" "strip (lit ''20'') = lit ''20''"
  "strip (lit ''40'') = lit ''40''" "strip (lit ''-5'') = lit ''-5''"
  "strip test_keyword = test_keyword"
  by (simp_all add: strip_def lit_def isspace_def test_keyword_def)

lemma literals_nonempty:
  "test_keyword \<noteq> []" "lit ''0'' \<noteq> []" "lit ''20'' \<noteq> []" "lit ''40'' \<noteq> []"
  "lit ''-5'' \<noteq> []"
  by (simp_all add: test_keyword_def lit_def)

lemma after_search_state:
  "current_offset after_search = 0" "current_limit after_search = 20"
  "current_keywords after_search = test_keyword"
  "next_btn after_search" "\<not> prev_btn after_search"
  "events after_search = [Search test_keyword (lit ''0'') (lit ''20'')]"
  "clock after_search = 1"
  "page_label after_search = page_label_text 0 137"
  by (simp_all add: after_search_def on_search_def init_app_def strip_literals literals_nonempty
      or_default_def ascii_int_literals do_search_def example_api_def display_results_def
      full_page_def Let_def update_song_detail_def)

lemma after_next_state:
  "current_offset after_next = 20"
  "current_limit after_next = 20"
  "next_btn after_next"
  "events after_next =
     [Search test_keyword (lit ''0'') (lit ''20''), Search test_keyword (lit ''20'') (lit ''20''),
      Show_info no_result_title no_result_body]"
  "\<not> prev_btn after_next"
  "page_label after_next = page_label_text 0 137"
  by (simp_all add: after_next_def next_page_def after_search_state Let_def do_search_def
      example_api_def display_results_def empty_page_def str_int_literals)

section \<open>Facts about downloading\<close>

lemma unavailable_not_status: "unavailable_msg \<noteq> status_failed_prefix @ s"
  by (simp add: unavailable_msg_def status_failed_prefix_def)

lemma example_links: "truthy (Some (lit ''gone''))" "text_of (Some (lit ''gone'')) = lit ''gone''"
  "truthy (Some (lit ''denied''))" "text_of (Some (lit ''denied'')) = lit ''denied''"
  "lit ''denied'' \<noteq> lit ''gone''"
  by (simp_all add: truthy_def text_of_def lit_def)


lemma avoid_duplicate_free: 
  "\<not> path_exists files full_path \<Longrightarrow>
     avoid_duplicate files dir filename full_path counter = full_path"
  by (subst avoid_duplicate.simps) simp




lemma ensure_dir_other_fields:
  "ensure_dir env dir st = Inr st2 \<Longrightarrow>
     clock st2 = clock st \<and> events st2 = events st \<and> download_log_text st2 = download_log_text st
     \<and> naming_format st2 = naming_format st \<and> download_dir st2 = download_dir st"
  by (auto simp: ensure_dir_def split: if_splits option.splits)







lemma avoid_duplicate_step:
  "path_exists files full_path \<Longrightarrow>
     avoid_duplicate files dir filename full_path counter
       = avoid_duplicate files dir filename (path_join dir (numbered_name filename counter))
           (Suc counter)"
  by (subst avoid_duplicate.simps) simp

lemma str_nat_small: "str_nat (Suc 0) = lit ''1''" "str_nat (Suc (Suc 0)) = lit ''2''"
  by (subst str_nat.simps, simp add: lit_def)+

lemma splitext_a: "splitext (lit ''a.mp3'') = (lit ''a'', lit ''.mp3'')"
  by (simp add: splitext_def lit_def Let_def)

lemma numbered_a: "numbered_name (lit ''a.mp3'') (Suc 0) = lit ''a (1).mp3''"
  "numbered_name (lit ''a.mp3'') (Suc (Suc 0)) = lit ''a (2).mp3''"
  by (simp_all add: numbered_name_def splitext_a str_nat_small) (simp_all add: lit_def)

lemma join_d: "path_join (lit ''d'') (lit ''a.mp3'') = lit ''d/a.mp3''"
  "path_join (lit ''d'') (lit ''a (1).mp3'') = lit ''d/a (1).mp3''"
  "path_join (lit ''d'') (lit ''a (2).mp3'') = lit ''d/a (2).mp3''"
  by (simp_all add: path_join_def lit_def)

lemma taken: "path_exists taken_files (lit ''d/a.mp3'')" "path_exists taken_files (lit ''d/a (1).mp3'')"
  "\<not> path_exists taken_files (lit ''d/a (2).mp3'')"
  by (simp_all add: path_exists_def taken_files_def lit_def)

lemma avoid_duplicate_taken:
  "avoid_duplicate taken_files (lit ''d'') (lit ''a.mp3'') (lit ''d/a.mp3'') 1
     = lit ''d/a (2).mp3''"
  by (simp add: avoid_duplicate_step avoid_duplicate_free taken numbered_a join_d)











lemma save_response_unlogged:
  "save_response env sid song_name artist resp st = (r, st') \<Longrightarrow>
     events st' = events st \<and> download_log_text st' = download_log_text st
     \<and> download_dir st' = download_dir st"
proof (cases "download_dir st")
  case (PStr dir)
  assume a: "save_response env sid song_name artist resp st = (r, st')"
  show ?thesis
  proof (cases "ensure_dir env dir st")
    case (Inl e)
    with PStr a show ?thesis by (auto simp: save_response_def)
  next
    case (Inr st2)
    from ensure_dir_other_fields [OF Inr] PStr Inr a show ?thesis
      by (auto simp: save_response_def Let_def split: option.splits)
  qed
qed (auto simp: save_response_def)

lemma fetch_effects:
  assumes "fetch_and_download_song env sid song_name artist link st = (r, st')"
  shows "events st' = events st @ [Http_get (if truthy link then text_of link else media_link sid)]
     \<and> download_log_text st' = download_log_text st
     \<and> download_dir st' = download_dir st"
proof -
  let ?st1 = "st\<lparr> events := events st @ [Http_get (if truthy link then text_of link else media_link sid)],
       clock := Suc (clock st) \<rparr>"
  from assms have "st' = ?st1 \<or> (\<exists>resp. save_response env sid song_name artist resp ?st1 = (r, st'))"
    by (auto simp: fetch_and_download_song_def Let_def split: http_result.splits if_splits)
  then show ?thesis
  proof
    assume "st' = ?st1" then show ?thesis by simp
  next
    assume "\<exists>resp. save_response env sid song_name artist resp ?st1 = (r, st')"
    then obtain resp where "save_response env sid song_name artist resp ?st1 = (r, st')" ..
    from save_response_unlogged [OF this] show ?thesis by simp
  qed
qed

lemma attempted_link_eq:
  "(if truthy (Some (download_link song)) then text_of (Some (download_link song))
    else media_link (song_id song)) = attempted_link song"
  by (simp add: truthy_def text_of_def attempted_link_def)

lemma add_download_log_effects:
  "events (add_download_log env m st) = events st"
  "download_dir (add_download_log env m st) = download_dir st"
  "download_log_text (add_download_log env m st)
     = download_log_text st @ [log_entry (now env (clock st)) m @ [0xA]]"
  by (simp_all add: add_download_log_def)

lemma batch_loop_accounts:
  "batch_loop env total_n i tracks s f st = ((s', f'), st') \<Longrightarrow>
     s' = s + length (filter fst (batch_outcomes env total_n i tracks st))
   \<and> f' = f + length (filter (\<lambda>r. \<not> fst r) (batch_outcomes env total_n i tracks st))
   \<and> length (batch_outcomes env total_n i tracks st) = length tracks
   \<and> events st' = events st @
        concat (map (\<lambda>(j, song). [Set_status (progress_text (j + 1) total_n),
                                  Http_get (attempted_link song)])
                    (enumerate i tracks))
   \<and> download_dir st' = download_dir st
   \<and> (\<exists>tss. length tss = length tracks
         \<and> download_log_text st' = download_log_text st @
              map2 (\<lambda>ts m. log_entry ts m @ [0xA]) tss
                (map2 track_message tracks (batch_outcomes env total_n i tracks st)))"
proof (induction tracks arbitrary: i s f st s' f' st')
  case Nil
  then show ?case by simp
next
  case (Cons song rest)
  let ?st1 = "st\<lparr> events := events st @ [Set_status (progress_text (i + 1) total_n)] \<rparr>"
  obtain b res st2 where fetch:
    "fetch_and_download_song env (song_id song) (Some (name song)) (Some (artist_str song))
       (Some (download_link song)) ?st1 = ((b, res), st2)"
    by (metis surj_pair)
  let ?st3 = "add_download_log env (track_message song (b, res)) st2"
  let ?s1 = "if b then s + 1 else s"
  let ?f1 = "if b then f else f + 1"
  from Cons.prems fetch have loop: "batch_loop env total_n (i + 1) rest ?s1 ?f1 ?st3 = ((s', f'), st')"
    by (simp add: Let_def split: if_splits)
  have out: "batch_outcomes env total_n i (song # rest) st
      = (b, res) # batch_outcomes env total_n (i + 1) rest ?st3"
    using fetch by (simp add: Let_def)
  let ?outs = "batch_outcomes env total_n (i + 1) rest ?st3"
  from Cons.IH [OF loop] obtain tss where ih:
    "s' = ?s1 + length (filter fst ?outs)"
    "f' = ?f1 + length (filter (\<lambda>r. \<not> fst r) ?outs)"
    "length ?outs = length rest"
    "events st' = events ?st3 @
        concat (map (\<lambda>(j, song). [Set_status (progress_text (j + 1) total_n),
                                  Http_get (attempted_link song)])
                    (enumerate (i + 1) rest))"
    "download_dir st' = download_dir ?st3"
    "length tss = length rest"
    "download_log_text st' = download_log_text ?st3 @
              map2 (\<lambda>ts m. log_entry ts m @ [0xA]) tss (map2 track_message rest ?outs)"
    by blast
  from fetch_effects [OF fetch] have fe:
    "events st2 = events st @ [Set_status (progress_text (i + 1) total_n), Http_get (attempted_link song)]"
    "download_log_text st2 = download_log_text st"
    "download_dir st2 = download_dir st"
    by (simp_all add: attempted_link_eq)
  have counts: "s' = s + length (filter fst (batch_outcomes env total_n i (song # rest) st))"
    "f' = f + length (filter (\<lambda>r. \<not> fst r) (batch_outcomes env total_n i (song # rest) st))"
    "length (batch_outcomes env total_n i (song # rest) st) = length (song # rest)"
    using ih(1,2,3) unfolding out by simp_all
  have ev: "events st' = events st @
        concat (map (\<lambda>(j, song). [Set_status (progress_text (j + 1) total_n),
                                  Http_get (attempted_link song)])
                    (enumerate i (song # rest)))"
    using ih(4) fe(1) by (simp add: add_download_log_effects)
  have dd: "download_dir st' = download_dir st"
    using ih(5) fe(3) by (simp add: add_download_log_effects)
  let ?ts0 = "now env (clock st2)"
  have "length (?ts0 # tss) = length (song # rest)
         \<and> download_log_text st' = download_log_text st @
              map2 (\<lambda>ts m. log_entry ts m @ [0xA]) (?ts0 # tss)
                (map2 track_message (song # rest) (batch_outcomes env total_n i (song # rest) st))"
    using ih(6,7) fe(2) unfolding out by (simp add: add_download_log_effects)
  then have lg: "\<exists>tss. length tss = length (song # rest)
         \<and> download_log_text st' = download_log_text st @
              map2 (\<lambda>ts m. log_entry ts m @ [0xA]) tss
                (map2 track_message (song # rest) (batch_outcomes env total_n i (song # rest) st))"
    by blast
  from counts ev dd lg show ?case by blast
qed

lemma batch_dialog_cong:
  "download_dir a = download_dir b \<Longrightarrow> batch_dialog env s f a = batch_dialog env s f b"
  by (simp add: batch_dialog_def)

lemma do_batch_download_effects:
  fixes env tracks st
  defines "st0 \<equiv> st\<lparr> events := events st @ [Set_status (progress_text 0 (length tracks))] \<rparr>"
  defines "outs \<equiv> batch_outcomes env (length tracks) 0 tracks st0"
  defines "fails \<equiv> length (filter (\<lambda>r. \<not> fst r) outs)"
  shows "length outs = length tracks
   \<and> length (filter fst outs) = length tracks - fails
   \<and> fails \<le> length tracks
   \<and> events (do_batch_download env tracks st) =
        events st @ [Set_status (progress_text 0 (length tracks))] @
        concat (map (\<lambda>(j, song). [Set_status (progress_text (j + 1) (length tracks)),
                                  Http_get (attempted_link song)])
                    (enumerate 0 tracks)) @
        [Set_status (batch_status_text (length tracks - fails) fails),
         batch_dialog env (length tracks - fails) fails st]
   \<and> (\<exists>tss. length tss = length tracks + 1
         \<and> download_log_text (do_batch_download env tracks st) =
              download_log_text st @
              map2 (\<lambda>ts m. log_entry ts m @ [0xA]) tss
                (map2 track_message tracks outs @
                 [batch_summary (length tracks) (length tracks - fails) fails]))"
proof -
  obtain s f st1 where loop:
    "batch_loop env (length tracks) 0 tracks 0 0 st0 = ((s, f), st1)"
    by (metis surj_pair)
  from batch_loop_accounts [OF loop] obtain tss where acc:
    "s = length (filter fst outs)"
    "f = fails"
    "length outs = length tracks"
    "events st1 = events st0 @
        concat (map (\<lambda>(j, song). [Set_status (progress_text (j + 1) (length tracks)),
                                  Http_get (attempted_link song)])
                    (enumerate 0 tracks))"
    "download_dir st1 = download_dir st0"
    "length tss = length tracks"
    "download_log_text st1 = download_log_text st0 @
              map2 (\<lambda>ts m. log_entry ts m @ [0xA]) tss (map2 track_message tracks outs)"
    unfolding outs_def fails_def by auto
  have "length (filter fst outs) + fails = length outs"
    unfolding fails_def by (rule sum_length_filter_compl)
  with acc(3) have sf: "length (filter fst outs) = length tracks - fails" "fails \<le> length tracks"
    by simp_all
  let ?st2 = "st1\<lparr> events := events st1 @ [Set_status (batch_status_text s f)] \<rparr>"
  let ?st3 = "add_download_log env (batch_summary (length tracks) s f) ?st2"
  have run: "do_batch_download env tracks st
      = ?st3\<lparr> events := events ?st3 @ [batch_dialog env s f ?st3] \<rparr>"
    using loop by (simp add: do_batch_download_def Let_def st0_def)
  have "download_dir ?st3 = download_dir st"
    using acc(5) by (simp add: add_download_log_effects st0_def)
  then have dlg: "batch_dialog env s f ?st3 = batch_dialog env s f st"
    by (rule batch_dialog_cong)
  have ev: "events (do_batch_download env tracks st) =
        events st @ [Set_status (progress_text 0 (length tracks))] @
        concat (map (\<lambda>(j, song). [Set_status (progress_text (j + 1) (length tracks)),
                                  Http_get (attempted_link song)])
                    (enumerate 0 tracks)) @
        [Set_status (batch_status_text (length tracks - fails) fails),
         batch_dialog env (length tracks - fails) fails st]"
    unfolding run dlg using acc(1,2,4) sf(1)
    by (simp add: add_download_log_effects st0_def)
  let ?ts = "tss @ [now env (clock ?st2)]"
  have "length ?ts = length tracks + 1
         \<and> download_log_text (do_batch_download env tracks st) =
              download_log_text st @
              map2 (\<lambda>ts m. log_entry ts m @ [0xA]) ?ts
                (map2 track_message tracks outs @
                 [batch_summary (length tracks) (length tracks - fails) fails])"
    unfolding run using acc(1,2,3,6,7) sf(1)
    by (simp add: add_download_log_effects st0_def)
  then have lg: "\<exists>tss. length tss = length tracks + 1
         \<and> download_log_text (do_batch_download env tracks st) =
              download_log_text st @
              map2 (\<lambda>ts m. log_entry ts m @ [0xA]) tss
                (map2 track_message tracks outs @
                 [batch_summary (length tracks) (length tracks - fails) fails])"
    by blast
  from acc(3) sf ev lg show ?thesis by blast
qed

lemma do_download_log:
  "\<exists>ts msg. download_log_text (do_download env sid song_name artist link st)
     = download_log_text st @ [log_entry ts msg @ [0xA]]"
proof -
  let ?st1 = "st\<lparr> events := events st @ [Set_status (downloading_prefix @ song_name)],
                     detail_download_status := downloading_text \<rparr>"
  obtain b res st2 where fetch:
    "fetch_and_download_song env sid (Some song_name) (Some artist) (Some link) ?st1
       = ((b, res), st2)"
    by (metis surj_pair)
  from fetch_effects [OF fetch] have l: "download_log_text st2 = download_log_text st" by simp
  show ?thesis
  proof (cases b)
    case True
    with fetch l have "download_log_text (do_download env sid song_name artist link st)
     = download_log_text st @
         [log_entry (now env (clock st2)) (ok_prefix @ song_name @ lit '' - '' @ artist) @ [0xA]]"
      by (simp add: do_download_def Let_def add_download_log_effects)
    then show ?thesis by blast
  next
    case False
    with fetch l have "download_log_text (do_download env sid song_name artist link st)
     = download_log_text st @
         [log_entry (now env (clock st2)) (fail_prefix @ song_name @ lit '' - '' @ res) @ [0xA]]"
      by (simp add: do_download_def Let_def add_download_log_effects)
    then show ?thesis by blast
  qed
qed

lemma display_results_log:
  "download_log_text (display_results data st) = download_log_text st"
  by (simp add: display_results_def Let_def update_song_detail_def)

lemma do_search_log:
  "download_log_text (do_search api k off lim st) = download_log_text st"
  by (simp add: do_search_def Let_def display_results_log split: reply.splits)

lemma paging_log:
  "download_log_text (next_page api st) = download_log_text st"
  "download_log_text (prev_page api st) = download_log_text st"
  "download_log_text (goto_offset py_int api st) = download_log_text st"
  "download_log_text (on_search py_int api st) = download_log_text st"
  by (simp_all add: next_page_def prev_page_def goto_offset_def on_search_def Let_def
      do_search_log split: option.splits)

lemma test_download_link_log:
  "download_log_text (test_download_link env st) = download_log_text st"
  by (simp add: test_download_link_def Let_def split: option.splits http_result.splits)





section \<open>Claims\<close>

text \<open>
  C5. \<open>generate_filename\<close> replaces every occurrence of the characters
  \<open>< > : " / \ | ? *\<close> in the track name and in the artist by \<open>_\<close> and then trims
  whitespace at both ends (so a non-empty cleaned text neither starts nor ends with
  whitespace). With the title-only format the file name is the cleaned name followed by
  \<open>.mp3\<close>; with the title-dash-artist format it is the cleaned name, \<open> - \<close>, the cleaned
  artist and \<open>.mp3\<close>. The name \<open>A/B:C\<close> with artist \<open>X*Y\<close> gives \<open>A_B_C - X_Y.mp3\<close>, and
  no result contains a forbidden character, whatever the format.
\<close>

theorem generate_filename_sanitized:
  "clean_filename text = strip (map (\<lambda>c. if c \<in> forbidden then underscore else c) text)
   \<and> (clean_filename text = [] \<or>
        (\<not> isspace (hd (clean_filename text)) \<and> \<not> isspace (last (clean_filename text))))
   \<and> generate_filename (PStr fmt_title_only) song_name artist
        = clean_filename song_name @ lit ''.mp3''
   \<and> generate_filename (PStr fmt_title_dash_artist) song_name artist
        = clean_filename song_name @ lit '' - '' @ clean_filename artist @ lit ''.mp3''
   \<and> generate_filename (PStr fmt_title_dash_artist) (lit ''A/B:C'') (lit ''X*Y'')
        = lit ''A_B_C - X_Y.mp3''
   \<and> set (generate_filename fmt song_name artist) \<inter> forbidden = {}"
proof -
  have trimmed: "clean_filename text = [] \<or>
      (\<not> isspace (hd (clean_filename text)) \<and> \<not> isspace (last (clean_filename text)))"
    unfolding clean_filename_def using strip_no_leading strip_no_trailing by blast
  have only: "generate_filename (PStr fmt_title_only) song_name artist
      = clean_filename song_name @ lit ''.mp3''"
    by (simp add: generate_filename_def)
  have "fmt_title_dash_artist \<noteq> fmt_title_only"
    by (simp add: fmt_title_dash_artist_def fmt_title_only_def)
  then have dash: "generate_filename (PStr fmt_title_dash_artist) song_name artist
      = clean_filename song_name @ lit '' - '' @ clean_filename artist @ lit ''.mp3''"
    by (simp add: generate_filename_def)
  from clean_filename_map trimmed only dash generate_filename_example
    generate_filename_no_forbidden
  show ?thesis by blast
qed

theorem generate_filename_sanitized_witness:
  "clean_filename (lit '' a<b '') = lit ''a_b''
   \<and> generate_filename (PStr fmt_title_only) (lit ''a?'') (lit ''b'') = lit ''a_.mp3''
   \<and> set (generate_filename (PStr fmt_title_only) (lit ''a?'') (lit ''b'')) \<inter> forbidden = {}"
proof -
  have a: "clean_filename (lit '' a<b '') = lit ''a_b''"
    using generate_filename_sanitized [of "lit '' a<b ''"]
    by (simp add: strip_def lit_def isspace_def forbidden_def underscore_def)
  have b: "generate_filename (PStr fmt_title_only) (lit ''a?'') (lit ''b'') = lit ''a_.mp3''"
    using generate_filename_sanitized [of "lit ''a?''" "lit ''a?''" "lit ''b''"]
    by (simp add: strip_def lit_def isspace_def forbidden_def underscore_def)
  from a b generate_filename_sanitized [of "[]" "lit ''a?''" "lit ''b''" "PStr fmt_title_only"]
  show ?thesis by blast
qed

text \<open>
  C6. From the initial state, after any finite sequence of next, prev, goto and reset
  the current offset is not negative. \<open>prev_page\<close> at offset 0 leaves the whole state as it
  is (so no search is issued), and at a positive offset it sets the offset to
  \<open>max 0 (offset - limit)\<close>.
\<close>

theorem offset_never_negative:
  "0 \<le> current_offset (run_ops py_int api ops init_app)
   \<and> (current_offset st = 0 \<longrightarrow> prev_page api st = st)
   \<and> (0 < current_offset st \<longrightarrow>
        current_offset (prev_page api st) = max 0 (current_offset st - current_limit st))"
proof -
  have "0 \<le> current_offset init_app \<and> 0 \<le> current_limit init_app"
    by (simp add: init_app_def)
  from run_ops_invariant [OF this]
  have a: "0 \<le> current_offset (run_ops py_int api ops init_app)" by blast
  have b: "current_offset st = 0 \<longrightarrow> prev_page api st = st"
    by (simp add: prev_page_def)
  have c: "0 < current_offset st \<longrightarrow>
        current_offset (prev_page api st) = max 0 (current_offset st - current_limit st)"
    by (simp add: prev_page_def Let_def do_search_paging)
  from a b c show ?thesis by blast
qed

theorem offset_never_negative_witness:
  "0 \<le> current_offset
      (run_ops ascii_int example_api [Next, Prev, Prev, Goto (lit ''-5''), Reset, Next] init_app)
   \<and> prev_page example_api init_app = init_app
   \<and> current_offset (prev_page example_api after_next) = 0"
proof -
  have z: "current_offset init_app = 0" by (simp add: init_app_def)
  have p: "0 < current_offset after_next" by (simp add: after_next_state)
  from offset_never_negative [of ascii_int example_api
      "[Next, Prev, Prev, Goto (lit ''-5''), Reset, Next]" init_app] z
  have a: "0 \<le> current_offset
      (run_ops ascii_int example_api [Next, Prev, Prev, Goto (lit ''-5''), Reset, Next] init_app)"
    and b: "prev_page example_api init_app = init_app"
    by blast+
  from offset_never_negative [of ascii_int example_api "[]" after_next] p
  have "current_offset (prev_page example_api after_next)
      = max 0 (current_offset after_next - current_limit after_next)"
    by blast
  then have c: "current_offset (prev_page example_api after_next) = 0"
    by (simp add: after_next_state)
  from a b c show ?thesis by blast
qed

text \<open>
  C7. When the jump entry holds a negative integer, \<open>goto_offset\<close> shows the input-error
  warning and changes nothing else: keyword, offset, limit and every other part of the
  state stay as they were and no search goes out. When it holds an integer \<open>n \<ge> 0\<close>, the
  offset becomes \<open>n\<close>, keyword and limit are kept, and the search is issued again with the
  keyword, \<open>str(n)\<close> and the limit.
\<close>

theorem goto_offset_validates:
  assumes "strip (goto_var st) \<noteq> []" and "py_int (strip (goto_var st)) = Some n"
  shows "(n < 0 \<longrightarrow>
            goto_offset py_int api st =
              st\<lparr> events := events st @ [Show_warning input_error_title enter_offset_body] \<rparr>)
       \<and> (0 \<le> n \<longrightarrow>
            current_offset (goto_offset py_int api st) = n
          \<and> offset_var (goto_offset py_int api st) = str_int n
          \<and> current_keywords (goto_offset py_int api st) = current_keywords st
          \<and> current_limit (goto_offset py_int api st) = current_limit st
          \<and> (\<exists>rest. events (goto_offset py_int api st) =
                events st @ Search (current_keywords st) (str_int n)
                              (str_int (current_limit st)) # rest))"
proof -
  have neg: "n < 0 \<longrightarrow>
      goto_offset py_int api st =
        st\<lparr> events := events st @ [Show_warning input_error_title enter_offset_body] \<rparr>"
    using assms by (simp add: goto_offset_def Let_def)
  have pos: "0 \<le> n \<longrightarrow>
            current_offset (goto_offset py_int api st) = n
          \<and> offset_var (goto_offset py_int api st) = str_int n
          \<and> current_keywords (goto_offset py_int api st) = current_keywords st
          \<and> current_limit (goto_offset py_int api st) = current_limit st
          \<and> (\<exists>rest. events (goto_offset py_int api st) =
                events st @ Search (current_keywords st) (str_int n)
                              (str_int (current_limit st)) # rest)"
  proof
    assume n: "0 \<le> n"
    let ?st1 = "st\<lparr> offset_var := str_int n, current_offset := n \<rparr>"
    from assms n have g: "goto_offset py_int api st =
        do_search api (current_keywords st) (str_int n) (str_int (current_limit st)) ?st1"
      by (simp add: goto_offset_def Let_def)
    have ov: "offset_var (do_search api (current_keywords st) (str_int n)
        (str_int (current_limit st)) ?st1) = str_int n"
      by (simp add: do_search_def Let_def display_results_def update_song_detail_def
          split: reply.splits)
    from do_search_events [of api "current_keywords st" "str_int n"
        "str_int (current_limit st)" ?st1]
    have ev: "\<exists>rest. events (goto_offset py_int api st) =
                events st @ Search (current_keywords st) (str_int n)
                              (str_int (current_limit st)) # rest"
      by (simp add: g)
    from g ov ev show "current_offset (goto_offset py_int api st) = n
          \<and> offset_var (goto_offset py_int api st) = str_int n
          \<and> current_keywords (goto_offset py_int api st) = current_keywords st
          \<and> current_limit (goto_offset py_int api st) = current_limit st
          \<and> (\<exists>rest. events (goto_offset py_int api st) =
                events st @ Search (current_keywords st) (str_int n)
                              (str_int (current_limit st)) # rest)"
      by (simp add: do_search_paging)
  qed
  from neg pos show ?thesis by blast
qed

theorem goto_offset_validates_witness:
  "goto_offset ascii_int example_api (after_search\<lparr> goto_var := lit ''-5'' \<rparr>) =
     after_search\<lparr> goto_var := lit ''-5'',
       events := [Search test_keyword (lit ''0'') (lit ''20''),
                  Show_warning input_error_title enter_offset_body] \<rparr>
   \<and> current_offset (goto_offset ascii_int example_api (after_search\<lparr> goto_var := lit ''40'' \<rparr>))
       = 40"
proof -
  let ?neg = "after_search\<lparr> goto_var := lit ''-5'' \<rparr>"
  let ?pos = "after_search\<lparr> goto_var := lit ''40'' \<rparr>"
  have n1: "strip (goto_var ?neg) \<noteq> []"
    and n2: "ascii_int (strip (goto_var ?neg)) = Some (- 5)"
    by (simp_all add: strip_literals literals_nonempty ascii_int_literals)
  have p1: "strip (goto_var ?pos) \<noteq> []"
    and p2: "ascii_int (strip (goto_var ?pos)) = Some 40"
    by (simp_all add: strip_literals literals_nonempty ascii_int_literals)
  from goto_offset_validates [where st = ?neg and py_int = ascii_int and n = "- 5"
      and api = example_api, OF n1 n2]
  have a: "goto_offset ascii_int example_api ?neg =
     after_search\<lparr> goto_var := lit ''-5'',
       events := [Search test_keyword (lit ''0'') (lit ''20''),
                  Show_warning input_error_title enter_offset_body] \<rparr>"
    by (simp add: after_search_state)
  from goto_offset_validates [where st = ?pos and py_int = ascii_int and n = 40
      and api = example_api, OF p1 p2]
  have b: "current_offset (goto_offset ascii_int example_api ?pos) = 40"
    by simp
  from a b show ?thesis by blast
qed

text \<open>
  C8 does not hold of the code. In the example run the first search (offset 0, limit
  20, 20 songs, \<open>songCount = 137\<close>) enables next and disables prev, and \<open>next_page\<close>
  sets the offset to 20 and sends the search again with offset 20 and limit 20, as the
  claim says. The answer to that search is a page of no songs, fewer than the limit of
  20. \<open>display_results\<close> returns on it before the lines that set the paging widgets:
  next is still enabled, prev is still disabled although the offset is 20, and the
  label still shows offset 0.
\<close>

theorem next_enabled_after_short_page:
  "next_btn after_search \<and> \<not> prev_btn after_search
   \<and> current_offset after_next = 20
   \<and> take 2 (events after_next) =
        [Search test_keyword (lit ''0'') (lit ''20''), Search test_keyword (lit ''20'') (lit ''20'')]
   \<and> example_api (clock after_search) test_keyword (lit ''20'') (lit ''20'') = Data empty_page
   \<and> int (length (songs empty_page)) < current_limit after_next
   \<and> next_btn after_next
   \<and> \<not> prev_btn after_next
   \<and> page_label after_next = page_label_text 0 137"
  by (simp add: after_search_state after_next_state example_api_def empty_page_def)

text \<open>
  C9, as amended. With no settings file, or one whose reading or decoding raises, the
  program starts with the naming format title-dash-artist and the directory
  \<open>downloads\<close>, and \<open>load_settings\<close> changes nothing but the two preferences (no message
  box, no error). The same holds when the file decodes to something that is not an
  object. When it decodes to an object, each missing key takes its default and each key
  that is present gives its preference the stored value, whatever that value is. The
  defaults themselves are valid.
\<close>

theorem load_settings_falls_back:
  "startup No_file = init_app
   \<and> valid_settings init_app
   \<and> naming_format init_app = PStr fmt_title_dash_artist
   \<and> download_dir init_app = PStr (lit ''downloads'')
   \<and> load_settings (Load_raises e) st =
        st\<lparr> naming_format := PStr fmt_title_dash_artist, download_dir := PStr (lit ''downloads'') \<rparr>
   \<and> ((\<forall>d. v \<noteq> PDict d) \<longrightarrow>
        load_settings (Decoded v) st =
          st\<lparr> naming_format := PStr fmt_title_dash_artist,
               download_dir := PStr (lit ''downloads'') \<rparr>)
   \<and> load_settings (Decoded (PDict settings)) st =
        st\<lparr> naming_format :=
               (case map_of settings (lit ''naming_format'') of
                  None \<Rightarrow> PStr fmt_title_dash_artist | Some x \<Rightarrow> x),
             download_dir :=
               (case map_of settings (lit ''download_dir'') of
                  None \<Rightarrow> PStr (lit ''downloads'') | Some x \<Rightarrow> x) \<rparr>"
proof -
  have a: "startup No_file = init_app"
    by (simp add: startup_def load_settings_def)
  have b: "valid_settings init_app"
    "naming_format init_app = PStr fmt_title_dash_artist"
    "download_dir init_app = PStr (lit ''downloads'')"
    by (simp_all add: valid_settings_def init_app_def)
  have c: "load_settings (Load_raises e) st =
        st\<lparr> naming_format := PStr fmt_title_dash_artist, download_dir := PStr (lit ''downloads'') \<rparr>"
    by (simp add: load_settings_def default_naming_format_def default_download_dir_def)
  have d: "(\<forall>d. v \<noteq> PDict d) \<longrightarrow>
        load_settings (Decoded v) st =
          st\<lparr> naming_format := PStr fmt_title_dash_artist,
               download_dir := PStr (lit ''downloads'') \<rparr>"
    by (cases v)
      (simp_all add: load_settings_def default_naming_format_def default_download_dir_def)
  have e: "load_settings (Decoded (PDict settings)) st =
        st\<lparr> naming_format :=
               (case map_of settings (lit ''naming_format'') of
                  None \<Rightarrow> PStr fmt_title_dash_artist | Some x \<Rightarrow> x),
             download_dir :=
               (case map_of settings (lit ''download_dir'') of
                  None \<Rightarrow> PStr (lit ''downloads'') | Some x \<Rightarrow> x) \<rparr>"
    by (simp add: load_settings_def dict_get_def default_naming_format_def
        default_download_dir_def)
  from a b c d e show ?thesis by blast
qed

theorem load_settings_falls_back_witness:
  "load_settings (Decoded (PList [])) init_app = init_app
   \<and> load_settings (Decoded (PDict [(lit ''naming_format'', PStr fmt_title_only)])) init_app
       = init_app\<lparr> naming_format := PStr fmt_title_only \<rparr>"
proof -
  have nd: "\<forall>d. PList [] \<noteq> PDict d" by simp
  from load_settings_falls_back [of "[]" init_app "PList []" "[]"] nd
  have a: "load_settings (Decoded (PList [])) init_app = init_app"
    by (simp add: init_app_def)
  from load_settings_falls_back
    [of "[]" init_app "PNone" "[(lit ''naming_format'', PStr fmt_title_only)]"]
  have b: "load_settings (Decoded (PDict [(lit ''naming_format'', PStr fmt_title_only)])) init_app
       = init_app\<lparr> naming_format := PStr fmt_title_only \<rparr>"
    by (simp add: init_app_def lit_def)
  from a b show ?thesis by blast
qed

text \<open>
  C9 as the spec states it fails: a settings file that decodes to an object whose
  \<open>naming_format\<close> is the number 5 and whose \<open>download_dir\<close> is \<open>null\<close> leaves preferences
  that are not valid.
\<close>

theorem load_settings_keeps_invalid_values:
  "\<not> valid_settings
      (startup (Decoded (PDict [(lit ''naming_format'', PInt 5), (lit ''download_dir'', PNone)])))"
  by (simp add: startup_def load_settings_def dict_get_def valid_settings_def lit_def)

text \<open>
  C1. When the GET of the track's link ends, after redirects, on the page
  \<open>https://music.163.com/#/404\<close>, \<open>fetch_and_download_song\<close> fails with its own
  message (U+65E0 U+6CD5 ..., "the song cannot be downloaded"), whatever the status
  code of that response, and nothing is written. Any other response whose status is
  not 200 fails with the message that carries the status code. The first message is
  never one of the second kind.
\<close>

theorem sentinel_is_specific_failure:
  assumes "http_get env (clock st) (if truthy link then text_of link else media_link sid)
             = Response resp"
  shows "(url resp = sentinel_url \<longrightarrow>
            fetch_and_download_song env sid song_name artist link st =
              ((False, unavailable_msg),
               st\<lparr> events := events st @
                      [Http_get (if truthy link then text_of link else media_link sid)],
                    clock := Suc (clock st) \<rparr>))
       \<and> (url resp \<noteq> sentinel_url \<and> status_code resp \<noteq> 200 \<longrightarrow>
            fetch_and_download_song env sid song_name artist link st =
              ((False, status_failed_prefix @ str_int (status_code resp)),
               st\<lparr> events := events st @
                      [Http_get (if truthy link then text_of link else media_link sid)],
                    clock := Suc (clock st) \<rparr>))
       \<and> unavailable_msg \<noteq> status_failed_prefix @ str_int code"
  using assms unavailable_not_status
  by (simp add: fetch_and_download_song_def Let_def)

theorem sentinel_is_specific_failure_witness:
  "fst (fetch_and_download_song example_env 1 (Some (lit ''A'')) (Some (lit ''X''))
          (Some (lit ''gone'')) init_app) = (False, unavailable_msg)
   \<and> fst (fetch_and_download_song example_env 2 (Some (lit ''A'')) (Some (lit ''X''))
          (Some (lit ''denied'')) init_app) = (False, status_failed_prefix @ str_int 403)"
proof -
  have g: "http_get example_env (clock init_app)
      (if truthy (Some (lit ''gone'')) then text_of (Some (lit ''gone'')) else media_link 1)
        = Response sentinel_response"
    by (simp add: example_env_def example_get_def example_links)
  have u: "url sentinel_response = sentinel_url" by (simp add: sentinel_response_def)
  let ?r = "\<lparr> url = lit ''denied'', status_code = 403, content = [], headers = [] \<rparr>"
  have d: "http_get example_env (clock init_app)
      (if truthy (Some (lit ''denied'')) then text_of (Some (lit ''denied'')) else media_link 2)
        = Response ?r"
    by (simp add: example_env_def example_get_def example_links)
  have nd: "url ?r \<noteq> sentinel_url" "status_code ?r \<noteq> 200"
    by (simp_all add: sentinel_url_def lit_def)
  from sentinel_is_specific_failure [OF g, of "Some (lit ''A'')" "Some (lit ''X'')" 0] u
  have a: "fst (fetch_and_download_song example_env 1 (Some (lit ''A'')) (Some (lit ''X''))
          (Some (lit ''gone'')) init_app) = (False, unavailable_msg)"
    by simp
  from sentinel_is_specific_failure [OF d, of "Some (lit ''A'')" "Some (lit ''X'')" 0] nd
  have b: "fst (fetch_and_download_song example_env 2 (Some (lit ''A'')) (Some (lit ''X''))
          (Some (lit ''denied'')) init_app) = (False, status_failed_prefix @ str_int 403)"
    by simp
  from a b show ?thesis by blast
qed

text \<open>
  C2 does not hold of the code. \<open>test_download_link\<close> compares the status with 200
  first, so a HEAD response that ended on the 404 page with status 200 is reported as a
  valid link, with the size and type of that page, and not as the 404 page.
\<close>

theorem test_link_takes_sentinel_for_valid:
  "http_head example_env 0 (lit ''gone'') = Response sentinel_response
   \<and> url sentinel_response = sentinel_url
   \<and> status_code sentinel_response = 200
   \<and> detail_download_status
        (test_download_link example_env (init_app\<lparr> selected_song := Some gone_song \<rparr>))
       = link_valid_text (lit ''1234'') (lit ''text/html'')
   \<and> link_valid_text (lit ''1234'') (lit ''text/html'') \<noteq> link_404_text"
  by (simp add: example_env_def example_get_def sentinel_response_def test_download_link_def
      init_app_def gone_song_def Let_def header_or_unknown_def ascii_lower_def
      link_valid_text_def link_valid_prefix_def link_404_text_def lit_def)





text \<open>
  C10, as amended. \<open>add_download_log\<close> puts one line \<open>[timestamp] message\<close> at the end of
  the download record. A single download appends exactly one such line and a batch of
  \<open>N\<close> tracks exactly \<open>N + 1\<close>, leaving what was there in front; fetching, testing a link,
  searching and paging leave the record as it is. \<open>reset_search\<close> empties it.
\<close>

theorem download_log_grows_until_reset:
  "download_log_text (add_download_log env m st)
     = download_log_text st @ [log_entry (now env (clock st)) m @ [0xA]]
   \<and> log_entry ts m = lit ''['' @ ts @ lit ''] '' @ m
   \<and> download_log_text (snd (fetch_and_download_song env sid song_name artist link st))
       = download_log_text st
   \<and> (\<exists>ts msg. download_log_text (do_download env sid title singer url0 st)
         = download_log_text st @ [log_entry ts msg @ [0xA]])
   \<and> (\<exists>tss msgs. length tss = length tracks + 1 \<and> length msgs = length tracks + 1
         \<and> download_log_text (do_batch_download env tracks st)
             = download_log_text st @ map2 (\<lambda>ts msg. log_entry ts msg @ [0xA]) tss msgs)
   \<and> download_log_text (test_download_link env st) = download_log_text st
   \<and> download_log_text (on_search py_int api st) = download_log_text st
   \<and> download_log_text (next_page api st) = download_log_text st
   \<and> download_log_text (prev_page api st) = download_log_text st
   \<and> download_log_text (goto_offset py_int api st) = download_log_text st
   \<and> download_log_text (reset_search st) = []"
proof -
  have f: "download_log_text (snd (fetch_and_download_song env sid song_name artist link st))
       = download_log_text st"
    using fetch_effects [of env sid song_name artist link st]
    by (metis prod.collapse)
  let ?st0 = "st\<lparr> events := events st @ [Set_status (progress_text 0 (length tracks))] \<rparr>"
  let ?outs = "batch_outcomes env (length tracks) 0 tracks ?st0"
  let ?fails = "length (filter (\<lambda>r. \<not> fst r) ?outs)"
  let ?msgs = "map2 track_message tracks ?outs @
      [batch_summary (length tracks) (length tracks - ?fails) ?fails]"
  from do_batch_download_effects [of env tracks st] obtain tss where b:
    "length ?outs = length tracks" "length tss = length tracks + 1"
    "download_log_text (do_batch_download env tracks st)
       = download_log_text st @ map2 (\<lambda>ts msg. log_entry ts msg @ [0xA]) tss ?msgs"
    by blast
  from b(1) have "length ?msgs = length tracks + 1" by simp
  with b(2,3) have batch: "\<exists>tss msgs. length tss = length tracks + 1 \<and> length msgs = length tracks + 1
         \<and> download_log_text (do_batch_download env tracks st)
             = download_log_text st @ map2 (\<lambda>ts msg. log_entry ts msg @ [0xA]) tss msgs"
    by blast
  have r: "download_log_text (reset_search st) = []"
    by (simp add: reset_search_def)
  have e: "log_entry ts m = lit ''['' @ ts @ lit ''] '' @ m"
    by (simp add: log_entry_def)
  from add_download_log_effects(3) [of env m st] e f do_download_log [of env sid title singer url0 st]
    batch test_download_link_log [of env st]
    paging_log(1,2) [of api st] paging_log(3,4) [of py_int api st] r
  show ?thesis by blast
qed

text \<open>
  C10 as the spec states it fails: after a download has written its line, \<open>reset_search\<close>
  removes it.
\<close>

theorem reset_search_empties_download_log:
  "download_log_text
     (do_download example_env 1 (lit ''A'') (lit ''X'') (lit ''gone'') init_app) \<noteq> []
   \<and> download_log_text
       (reset_search (do_download example_env 1 (lit ''A'') (lit ''X'') (lit ''gone'') init_app))
       = []"
proof -
  from do_download_log [of example_env 1 "lit ''A''" "lit ''X''" "lit ''gone''" init_app]
  have "download_log_text
     (do_download example_env 1 (lit ''A'') (lit ''X'') (lit ''gone'') init_app) \<noteq> []"
    by auto
  then show ?thesis by (simp add: reset_search_def)
qed

end
